theory Spec2Isabelle
  imports Main "HOL-Library.Word" "HOL-Library.Sublist"
begin

section \<open>JavaScript strings\<close>

text \<open>
  A JavaScript string is a sequence of UTF-16 code units. Literals of the source that are
  plain ASCII are written with \<open>ascii\<close>; every other literal is given by its code units.
\<close>

type_synonym jschar = "16 word"
type_synonym jsstring = "jschar list"

definition ascii :: "string \<Rightarrow> jsstring" where
  "ascii s = map (\<lambda>c. of_nat (of_char c)) s"

definition nl :: jschar where
  "nl = 0x0A"

definition bar :: jschar where
  "bar = 0x7C"

text \<open>
  The code units that \<open>String.prototype.trim\<close> strips: the WhiteSpace and LineTerminator
  productions of ECMAScript (TAB, VT, FF, SP, NBSP, ZWNBSP, the Unicode space separators,
  LF, CR, LS, PS).
\<close>

definition isWhiteSpace :: "jschar \<Rightarrow> bool" where
  "isWhiteSpace c \<longleftrightarrow>
     c = 0x09 \<or> c = 0x0A \<or> c = 0x0B \<or> c = 0x0C \<or> c = 0x0D \<or> c = 0x20 \<or> c = 0xA0 \<or>
     c = 0x1680 \<or> (0x2000 \<le> c \<and> c \<le> 0x200A) \<or> c = 0x2028 \<or> c = 0x2029 \<or>
     c = 0x202F \<or> c = 0x205F \<or> c = 0x3000 \<or> c = 0xFEFF"

definition trim :: "jsstring \<Rightarrow> jsstring" where
  "trim s = rev (dropWhile isWhiteSpace (rev (dropWhile isWhiteSpace s)))"

text \<open>
  \<open>s.split(sep)\<close> for a separator of one code unit. The result is never the empty array:
  the empty string splits into one empty field.
\<close>

fun split :: "jschar \<Rightarrow> jsstring \<Rightarrow> jsstring list" where
  "split sep [] = [[]]"
| "split sep (c # cs) =
     (if c = sep then [] # split sep cs
      else (case split sep cs of
              [] \<Rightarrow> [[c]]
            | field # fields \<Rightarrow> (c # field) # fields))"

text \<open>
  A value read from an object property is a string or \<open>undefined\<close> (\<open>None\<close>).
  \<open>truthy\<close> is the test of \<open>if (v)\<close> and \<open>v && ...\<close>; \<open>toStr\<close> is the conversion of
  a template literal \<open>${v}\<close>.
\<close>

fun truthy :: "jsstring option \<Rightarrow> bool" where
  "truthy None = False"
| "truthy (Some s) = (s \<noteq> [])"

fun toStr :: "jsstring option \<Rightarrow> jsstring" where
  "toStr None = ascii ''undefined''"
| "toStr (Some s) = s"

text \<open>Decimal rendering of a non-negative integer (\<open>${n}\<close> for a count or a status).\<close>

definition digit :: "nat \<Rightarrow> jschar" where
  "digit d = of_nat (48 + d)"

function showNat :: "nat \<Rightarrow> jsstring" where
  "showNat n = (if n < 10 then [digit n] else showNat (n div 10) @ [digit (n mod 10)])"
  by pat_completeness auto
termination
  by (relation "measure id") auto

declare showNat.simps [simp del]

section \<open>The string literals of the source\<close>

text \<open>
  Each constant is one literal (or one fixed part of a template literal) of the source,
  as UTF-16 code units. The comment gives the meaning of the texts that are not English.
\<close>

definition SIYUAN_STORAGE_PATH :: jsstring where
  "SIYUAN_STORAGE_PATH =
     ascii ''/data/storage/petal/portfolio-importer''"

definition msgUpdateStart :: jsstring where \<comment> \<open>rocket, starting the portfolio data update\<close>
  "msgUpdateStart =
     [0xD83D, 0xDE80] @ ascii '' '' @ [0x5F00, 0x59CB, 0x6267, 0x884C, 0x6295, 0x8D44, 0x7EC4,
       0x5408, 0x6570, 0x636E, 0x66F4, 0x65B0] @ ascii ''...''"

definition msgRunScript :: jsstring where \<comment> \<open>running portfolio_exposure.py\<close>
  "msgRunScript =
     [0xD83D, 0xDCE1] @ ascii '' '' @ [0x6B63, 0x5728, 0x8FD0, 0x884C] @
       ascii '' portfolio_exposure.py...''"

definition errHttp :: jsstring where \<comment> \<open>HTTP error:\<close>
  "errHttp =
     ascii ''HTTP'' @ [0x9519, 0x8BEF] @ ascii '': ''"

definition errPython :: jsstring where \<comment> \<open>Python script error:\<close>
  "errPython =
     ascii ''Python '' @ [0x811A, 0x672C, 0x9519, 0x8BEF] @ ascii '': ''"

definition msgHistoryDone :: jsstring where \<comment> \<open>portfolio_history_unified.csv generated\<close>
  "msgHistoryDone =
     [0x2705] @ ascii '' portfolio_history_unified.csv '' @ [0x5DF2, 0x751F, 0x6210]"

definition msgNewsDone :: jsstring where \<comment> \<open>portfolio_news_history.csv generated\<close>
  "msgNewsDone =
     [0x2705] @ ascii '' portfolio_news_history.csv '' @ [0x5DF2, 0x751F, 0x6210]"

definition msgChartDone :: jsstring where \<comment> \<open>portfolio_sectors_unified.html generated\<close>
  "msgChartDone =
     [0x2705] @ ascii '' portfolio_sectors_unified.html '' @ [0x5DF2, 0x751F, 0x6210]"

definition msgChartWarning :: jsstring where \<comment> \<open>chart generation had warnings, data is complete\<close>
  "msgChartWarning =
     [0x26A0, 0xFE0F] @ ascii '' '' @ [0x56FE, 0x8868, 0x751F, 0x6210, 0x6709, 0x8B66, 0x544A,
       0xFF0C, 0x4F46, 0x6570, 0x636E, 0x5DF2, 0x5B8C, 0x6210]"

definition msgSummary :: jsstring where \<comment> \<open>portfolio overview:\<close>
  "msgSummary =
     [0xD83D, 0xDCCA] @ ascii '' '' @ [0x6295, 0x8D44, 0x7EC4, 0x5408, 0x6982, 0x89C8] @
       ascii '':''"

definition msgTotalValue :: jsstring where \<comment> \<open>total value:\<close>
  "msgTotalValue =
     ascii ''   '' @ [0x603B, 0x4EF7, 0x503C] @ ascii '': ''"

definition msgUnrealized :: jsstring where \<comment> \<open>unrealized P/L:\<close>
  "msgUnrealized =
     ascii ''   '' @ [0x672A, 0x5B9E, 0x73B0, 0x76C8, 0x4E8F] @ ascii '': ''"

definition msgDividends :: jsstring where \<comment> \<open>total dividends:\<close>
  "msgDividends =
     ascii ''   '' @ [0x603B, 0x80A1, 0x606F] @ ascii '': ''"

definition msgPositions :: jsstring where \<comment> \<open>position count:\<close>
  "msgPositions =
     ascii ''   '' @ [0x6301, 0x4ED3, 0x6570] @ ascii '': ''"

definition msgHint :: jsstring where \<comment> \<open>hint: news or chart can now be imported (no bridge needed)\<close>
  "msgHint =
     [0xD83D, 0xDCA1] @ ascii '' '' @ [0x63D0, 0x793A] @ ascii '': '' @ [0x73B0, 0x5728,
       0x53EF, 0x4EE5, 0x5BFC, 0x5165, 0x65B0, 0x95FB, 0x6216, 0x56FE, 0x8868, 0x5230, 0x601D,
       0x6E90, 0x7B14, 0x8BB0, 0xFF08, 0x65E0, 0x9700] @ ascii '' bridge '' @ [0x8FD0, 0x884C,
       0xFF09]"

definition msgFailed :: jsstring where \<comment> \<open>failed:\<close>
  "msgFailed =
     [0x274C] @ ascii '' '' @ [0x5931, 0x8D25] @ ascii '': ''"

definition msgMissingTarget :: jsstring where \<comment> \<open>error: please enter the target document ID\<close>
  "msgMissingTarget =
     [0x9519, 0x8BEF] @ ascii '': '' @ [0x8BF7, 0x8F93, 0x5165, 0x76EE, 0x6807, 0x6587,
       0x6863] @ ascii '' ID''"

definition msgNewsStart :: jsstring where \<comment> \<open>starting the import of the latest news\<close>
  "msgNewsStart =
     [0xD83D, 0xDCF0] @ ascii '' '' @ [0x5F00, 0x59CB, 0x5BFC, 0x5165, 0x6700, 0x65B0, 0x65B0,
       0x95FB, 0x5230, 0x601D, 0x6E90, 0x7B14, 0x8BB0] @ ascii ''...''"

definition msgReadNews :: jsstring where \<comment> \<open>reading the local news data\<close>
  "msgReadNews =
     [0xD83D, 0xDCC2] @ ascii '' '' @ [0x6B63, 0x5728, 0x8BFB, 0x53D6, 0x672C, 0x5730, 0x65B0,
       0x95FB, 0x6570, 0x636E] @ ascii ''...''"

definition newsFileName :: jsstring where
  "newsFileName =
     ascii ''/portfolio_news_history.csv''"

definition errNewsFile :: jsstring where \<comment> \<open>cannot read the news file:\<close>
  "errNewsFile =
     [0x65E0, 0x6CD5, 0x8BFB, 0x53D6, 0x65B0, 0x95FB, 0x6587, 0x4EF6] @ ascii '': ''"

definition errRunUpdateFirst :: jsstring where \<comment> \<open>please run the portfolio update first\<close>
  "errRunUpdateFirst =
     ascii ''. '' @ [0x8BF7, 0x5148, 0x8FD0, 0x884C, 0x0022, 0x66F4, 0x65B0, 0x6295, 0x8D44,
       0x7EC4, 0x5408, 0x6570, 0x636E, 0x0022]"

definition errNewsEmpty :: jsstring where \<comment> \<open>the news data is empty\<close>
  "errNewsEmpty =
     [0x65B0, 0x95FB, 0x6570, 0x636E, 0x4E3A, 0x7A7A]"

definition msgBuildMd :: jsstring where \<comment> \<open>building the Markdown\<close>
  "msgBuildMd =
     [0xD83D, 0xDCDD] @ ascii '' '' @ [0x6B63, 0x5728, 0x6784, 0x5EFA] @ ascii '' Markdown '' @
       [0x683C, 0x5F0F] @ ascii ''...''"

definition mdTitleOpen :: jsstring where
  "mdTitleOpen =
     [0x000A] @ ascii ''---'' @ [0x000A] @ ascii ''# '' @ [0xD83D, 0xDCC8] @
       ascii '' Portfolio News Update (''"

definition mdTitleClose :: jsstring where
  "mdTitleClose =
     ascii '')'' @ [0x000A, 0x000A]"

definition msgProcessing :: jsstring where \<comment> \<open>processing news:\<close>
  "msgProcessing =
     [0x5904, 0x7406, 0x65B0, 0x95FB] @ ascii '': ''"

definition msgLinked :: jsstring where \<comment> \<open>linked to thesis:\<close>
  "msgLinked =
     ascii ''  '' @ [0x2713] @ ascii '' '' @ [0x5DF2, 0x94FE, 0x63A5, 0x5230, 0x8BBA, 0x6587] @
       ascii '': ''"

definition mdHeading :: jsstring where
  "mdHeading =
     ascii ''## ''"

definition mdRefOpen :: jsstring where
  "mdRefOpen =
     ascii ''((''"

definition mdRefMid :: jsstring where
  "mdRefMid =
     ascii '' '' @ [0x0027]"

definition mdRefClose :: jsstring where
  "mdRefClose =
     [0x0027] @ ascii ''))''"

definition mdBulletOpen :: jsstring where
  "mdBulletOpen =
     ascii ''- [''"

definition mdBulletMid :: jsstring where
  "mdBulletMid =
     ascii ''](''"

definition mdBulletClose :: jsstring where
  "mdBulletClose =
     ascii '')''"

definition mdDot :: jsstring where \<comment> \<open>space, middle dot U+00B7, space\<close>
  "mdDot =
     ascii '' '' @ [0x00B7] @ ascii '' ''"

definition mdNoNews :: jsstring where \<comment> \<open>the placeholder line: no news yet\<close>
  "mdNoNews =
     ascii ''*('' @ [0x6682, 0x65E0, 0x65B0, 0x95FB] @ ascii '')*'' @ [0x000A]"

definition mdNA :: jsstring where
  "mdNA =
     ascii ''N/A''"

definition mdEarnings :: jsstring where \<comment> \<open>middle dot and a calendar sign\<close>
  "mdEarnings =
     ascii '' '' @ [0x00B7] @ ascii '' '' @ [0xD83D, 0xDCC5] @ ascii '' ''"

definition msgSync :: jsstring where \<comment> \<open>syncing to the note\<close>
  "msgSync =
     [0xD83D, 0xDCE4] @ ascii '' '' @ [0x6B63, 0x5728, 0x540C, 0x6B65, 0x5230, 0x601D, 0x6E90,
       0x7B14, 0x8BB0] @ ascii ''...''"

definition msgNewsOk1 :: jsstring where \<comment> \<open>news import succeeded, added\<close>
  "msgNewsOk1 =
     [0xD83C, 0xDF89] @ ascii '' '' @ [0x65B0, 0x95FB, 0x5BFC, 0x5165, 0x6210, 0x529F, 0xFF01,
       0x5DF2, 0x6DFB, 0x52A0] @ ascii '' ''"

definition msgNewsOk2 :: jsstring where \<comment> \<open>positions' news\<close>
  "msgNewsOk2 =
     ascii '' '' @ [0x4E2A, 0x6301, 0x4ED3, 0x7684, 0x65B0, 0x95FB]"

definition msgLinkedCount1 :: jsstring where \<comment> \<open>of which\<close>
  "msgLinkedCount1 =
     [0xD83D, 0xDD17] @ ascii '' '' @ [0x5176, 0x4E2D] @ ascii '' ''"

definition msgLinkedCount2 :: jsstring where \<comment> \<open>are linked to a thesis\<close>
  "msgLinkedCount2 =
     ascii '' '' @ [0x4E2A, 0x5DF2, 0x94FE, 0x63A5, 0x5230, 0x6295, 0x8D44, 0x8BBA, 0x6587]"

definition errSiyuanApi :: jsstring where \<comment> \<open>host API error:\<close>
  "errSiyuanApi =
     [0x601D, 0x6E90] @ ascii '' API '' @ [0x9519, 0x8BEF] @ ascii '': ''"

definition msgChartStart :: jsstring where \<comment> \<open>starting the chart import\<close>
  "msgChartStart =
     [0xD83D, 0xDCCA] @ ascii '' '' @ [0x5F00, 0x59CB, 0x5BFC, 0x5165, 0x4EA4, 0x4E92, 0x5F0F,
       0x56FE, 0x8868] @ ascii ''...''"

definition chartFileName :: jsstring where
  "chartFileName =
     ascii ''/portfolio_sectors_unified.html''"

definition msgCheckChart :: jsstring where \<comment> \<open>checking the chart file\<close>
  "msgCheckChart =
     [0xD83D, 0xDCC2] @ ascii '' '' @ [0x68C0, 0x67E5, 0x56FE, 0x8868, 0x6587, 0x4EF6] @
       ascii ''...''"

definition errChartFile :: jsstring where \<comment> \<open>the chart file does not exist:\<close>
  "errChartFile =
     [0x56FE, 0x8868, 0x6587, 0x4EF6, 0x4E0D, 0x5B58, 0x5728] @ ascii '': ''"

definition msgChartFound :: jsstring where \<comment> \<open>chart file found\<close>
  "msgChartFound =
     [0x2705] @ ascii '' '' @ [0x56FE, 0x8868, 0x6587, 0x4EF6, 0x5DF2, 0x627E, 0x5230]"

definition iframeOpen :: jsstring where
  "iframeOpen =
     [0x000A] @ ascii ''<iframe src='' @ [0x0022]"

definition iframeClose :: jsstring where
  "iframeClose =
     [0x0022] @ ascii '' width='' @ [0x0022] @ ascii ''100%'' @ [0x0022] @ ascii '' height='' @
       [0x0022] @ ascii ''950px'' @ [0x0022] @ ascii '' style='' @ [0x0022] @
       ascii ''border:none; border-radius: 8px; box-shadow: 0 2px 8px rgba(0,0,0,0.1);'' @
       [0x0022] @ ascii ''></iframe>'' @ [0x000A]"

definition msgEmbed :: jsstring where \<comment> \<open>embedding the chart into the note\<close>
  "msgEmbed =
     [0xD83D, 0xDCE4] @ ascii '' '' @ [0x6B63, 0x5728, 0x5D4C, 0x5165, 0x56FE, 0x8868, 0x5230,
       0x601D, 0x6E90, 0x7B14, 0x8BB0] @ ascii ''...''"

definition msgChartOk :: jsstring where \<comment> \<open>chart import succeeded\<close>
  "msgChartOk =
     [0xD83C, 0xDF89] @ ascii '' '' @ [0x4EA4, 0x4E92, 0x5F0F, 0x56FE, 0x8868, 0x5BFC, 0x5165,
       0x6210, 0x529F, 0xFF01]"

definition msgChartInfo :: jsstring where \<comment> \<open>the chart contains:\<close>
  "msgChartInfo =
     [0xD83D, 0xDCA1] @ ascii '' '' @ [0x56FE, 0x8868, 0x5305, 0x542B] @ ascii '':''"

definition msgChartInfo1 :: jsstring where \<comment> \<open>pie chart: sector allocation\<close>
  "msgChartInfo1 =
     ascii ''   - '' @ [0x6247, 0x5F62, 0x56FE] @ ascii '': '' @ [0x677F, 0x5757, 0x914D,
       0x7F6E]"

definition msgChartInfo2 :: jsstring where \<comment> \<open>pie chart: risk class allocation\<close>
  "msgChartInfo2 =
     ascii ''   - '' @ [0x6247, 0x5F62, 0x56FE] @ ascii '': '' @ [0x98CE, 0x9669, 0x7C7B,
       0x522B, 0x914D, 0x7F6E]"

definition msgChartInfo3 :: jsstring where \<comment> \<open>date slider: history\<close>
  "msgChartInfo3 =
     ascii ''   - '' @ [0x65E5, 0x671F, 0x6ED1, 0x5757] @ ascii '': '' @ [0x67E5, 0x770B,
       0x5386, 0x53F2, 0x53D8, 0x5316]"

definition msgChartInfo4 :: jsstring where \<comment> \<open>positions in detail: P/L, dividends, news\<close>
  "msgChartInfo4 =
     ascii ''   - '' @ [0x8BE6, 0x7EC6, 0x6301, 0x4ED3] @ ascii '': '' @ [0x76C8, 0x4E8F,
       0x3001, 0x80A1, 0x606F, 0x3001, 0x65B0, 0x95FB]"

definition msgFullStart :: jsstring where \<comment> \<open>starting the full import\<close>
  "msgFullStart =
     [0xD83D, 0xDE80] @ ascii '' '' @ [0x5F00, 0x59CB, 0x6267, 0x884C, 0x5B8C, 0x6574, 0x5BFC,
       0x5165, 0x6D41, 0x7A0B] @ ascii ''...''"

definition msgStep1 :: jsstring where \<comment> \<open>step 1/3: update the portfolio data\<close>
  "msgStep1 =
     [0x000A] @ ascii ''=== '' @ [0x6B65, 0x9AA4] @ ascii '' 1/3: '' @ [0x66F4, 0x65B0, 0x6295,
       0x8D44, 0x7EC4, 0x5408, 0x6570, 0x636E] @ ascii '' ===''"

definition msgStep2 :: jsstring where \<comment> \<open>step 2/3: import the news\<close>
  "msgStep2 =
     [0x000A] @ ascii ''=== '' @ [0x6B65, 0x9AA4] @ ascii '' 2/3: '' @ [0x5BFC, 0x5165, 0x65B0,
       0x95FB] @ ascii '' ===''"

definition msgStep3 :: jsstring where \<comment> \<open>step 3/3: import the chart\<close>
  "msgStep3 =
     [0x000A] @ ascii ''=== '' @ [0x6B65, 0x9AA4] @ ascii '' 3/3: '' @ [0x5BFC, 0x5165, 0x4EA4,
       0x4E92, 0x5F0F, 0x56FE, 0x8868] @ ascii '' ===''"

definition msgFullOk :: jsstring where \<comment> \<open>the full import succeeded\<close>
  "msgFullOk =
     [0x000A, 0xD83C, 0xDF8A] @ ascii '' '' @ [0x5B8C, 0x6574, 0x5BFC, 0x5165, 0x6D41, 0x7A0B,
       0x6267, 0x884C, 0x6210, 0x529F, 0xFF01]"

section \<open>The record parser and the latest-snapshot selector\<close>

text \<open>
  A row is the plain object \<open>row = {}\<close> filled by \<open>row[header] = ...\<close>. Its own
  properties are kept as the list of names and values in the order in which the object
  enumerates them: the names that are array indices first, by ascending number, then the
  other names in the order of their creation.
\<close>

type_synonym properties = "(jsstring \<times> jsstring) list"

text \<open>
  An array index is the canonical decimal form of an integer from 0 to \<open>2^32 - 2\<close>: digits
  only, no leading zero except for \<open>0\<close> itself.
\<close>

definition isDigit :: "jschar \<Rightarrow> bool" where
  "isDigit c \<longleftrightarrow> 0x30 \<le> c \<and> c \<le> 0x39"

definition indexValue :: "jsstring \<Rightarrow> nat" where
  "indexValue s = foldl (\<lambda>n c. 10 * n + (unat c - 48)) 0 s"

definition isArrayIndex :: "jsstring \<Rightarrow> bool" where
  "isArrayIndex s \<longleftrightarrow>
     (case s of
        [] \<Rightarrow> False
      | c # cs \<Rightarrow> list_all isDigit s \<and> (c \<noteq> 0x30 \<or> cs = []) \<and> indexValue s < 4294967295)"

definition protoKey :: jsstring where
  "protoKey = ascii ''__proto__''"

text \<open>
  The assignment \<open>row[key] = v\<close> of a string \<open>v\<close>. The name \<open>__proto__\<close> is the accessor
  that the object inherits from \<open>Object.prototype\<close>, whose setter ignores a string: nothing
  is stored. A name the object already has keeps its place and takes the new value. A new
  name is created: before the first greater array index or other name when it is an array
  index, at the end otherwise.
\<close>

definition setProp :: "jsstring \<Rightarrow> jsstring \<Rightarrow> properties \<Rightarrow> properties" where
  "setProp key v own =
     (if key = protoKey then own
      else if key \<in> fst ` set own then
        map (\<lambda>(name, old). if name = key then (name, v) else (name, old)) own
      else if isArrayIndex key then
        takeWhile (\<lambda>(name, old). isArrayIndex name \<and> indexValue name < indexValue key) own @
        (key, v) #
        dropWhile (\<lambda>(name, old). isArrayIndex name \<and> indexValue name < indexValue key) own
      else own @ [(key, v)])"

text \<open>
  \<open>headers.forEach((header, index) => { row[header] = values[index] ? values[index].trim() : ''; })\<close>
  An index beyond \<open>values\<close> reads \<open>undefined\<close>, which is falsy like the empty string.
\<close>

definition cell :: "jsstring list \<Rightarrow> nat \<Rightarrow> jsstring" where
  "cell values index =
     (if index < length values \<and> values ! index \<noteq> [] then trim (values ! index) else [])"

definition rowProps :: "jsstring list \<Rightarrow> jsstring list \<Rightarrow> properties" where
  "rowProps headers values =
     fold (\<lambda>(index, header) own. setProp header (cell values index) own)
       (enumerate 0 headers) []"

text \<open>
  No code of the repository enumerates the properties of a row; it only reads them by
  name (\<open>row.Date\<close>, \<open>item.ticker\<close>, \<open>item[`news_${i}_title`]\<close>, none of them a name that
  \<open>Object.prototype\<close> provides). To everything that consumes it, a row is therefore the map
  from its own property names to their values, and a name it does not have reads
  \<open>undefined\<close>.
\<close>

type_synonym row = "jsstring \<rightharpoonup> jsstring"

definition mkRow :: "jsstring list \<Rightarrow> jsstring list \<Rightarrow> row" where
  "mkRow headers values = map_of (rowProps headers values)"

text \<open>
  The loop \<open>for (let i = 1; i < lines.length; i++)\<close> over the lines after the header: a line
  whose value count differs from the header's is skipped by \<open>continue\<close>, any other line
  pushes one row onto \<open>data\<close>.
\<close>

fun parseLoop :: "jsstring list \<Rightarrow> jsstring list \<Rightarrow> row list \<Rightarrow> row list" where
  "parseLoop headers [] data = data"
| "parseLoop headers (line # rest) data =
     (let values = split bar line in
      if length values \<noteq> length headers then parseLoop headers rest data
      else parseLoop headers rest (data @ [mkRow headers values]))"

definition csvLines :: "jsstring \<Rightarrow> jsstring list" where
  "csvLines csvText = split nl (trim csvText)"

definition csvHeaders :: "jsstring list \<Rightarrow> jsstring list" where
  "csvHeaders lines = map trim (split bar (lines ! 0))"

text \<open>
  The first part of \<open>parseNewsCSV\<close>, up to the end of its loop: the array \<open>data\<close>, or
  the empty array of the early \<open>return []\<close> when there are fewer than two lines.
\<close>

definition parseData :: "jsstring \<Rightarrow> row list" where
  "parseData csvText =
     (let lines = csvLines csvText in
      if length lines < 2 then []
      else parseLoop (csvHeaders lines) (drop 1 lines) [])"

definition Date :: jsstring where
  "Date = ascii ''Date''"

text \<open>
  The end of \<open>parseNewsCSV\<close>: \<open>if (data.length === 0) return [];\<close> then
  \<open>data.filter(row => row.Date === data[0].Date)\<close>. Strict equality of two property reads:
  two strings with the same code units, or \<open>undefined\<close> on both sides.
\<close>

definition latestSnapshot :: "row list \<Rightarrow> row list" where
  "latestSnapshot data =
     (case data of
        [] \<Rightarrow> []
      | row0 # _ \<Rightarrow> (let latestDate = row0 Date in filter (\<lambda>row. row Date = latestDate) data))"

definition parseNewsCSV :: "jsstring \<Rightarrow> row list" where
  "parseNewsCSV csvText = latestSnapshot (parseData csvText)"

section \<open>The document renderer\<close>

text \<open>
  \<open>truthyTrim v\<close> is the test \<open>v && v.trim()\<close>: \<open>v\<close> is a non-empty string whose trimmed
  form is non-empty. \<open>trimOf v\<close> is \<open>v.trim()\<close> at a place that this test guards, where
  \<open>v\<close> is a string.
\<close>

fun truthyTrim :: "jsstring option \<Rightarrow> bool" where
  "truthyTrim None = False"
| "truthyTrim (Some s) = (s \<noteq> [] \<and> trim s \<noteq> [])"

fun trimOf :: "jsstring option \<Rightarrow> jsstring" where
  "trimOf None = []"
| "trimOf (Some s) = trim s"

definition tickerKey :: jsstring where
  "tickerKey = ascii ''ticker''"

definition thesisKey :: jsstring where
  "thesisKey = ascii ''thesis''"

text \<open>The property names \<open>news_${i}_title\<close>, \<open>news_${i}_date\<close> and \<open>news_${i}_link\<close>.\<close>

definition newsKey :: "nat \<Rightarrow> string \<Rightarrow> jsstring" where
  "newsKey i part = ascii ''news_'' @ showNat i @ ascii part"

datatype level = LDefault | LInfo | LSuccess | LWarning | LError

text \<open>
  The log panel is the list of the lines appended to it, each with its level. The time
  stamp that \<open>log\<close> prefixes to a line is not modelled.
\<close>

type_synonym logline = "jsstring \<times> level"

text \<open>
  The markup of the first line of a document: \<open>\n---\n# ... Portfolio News Update (${date})\n\n\<close>.
\<close>

definition mdTitle :: "jsstring option \<Rightarrow> jsstring" where
  "mdTitle date = mdTitleOpen @ toStr date @ mdTitleClose"

subsection \<open>Direct-file variant\<close>

text \<open>
  The loop \<open>for (let i = 1; i <= 5; i++)\<close> over the news groups of one item, with the two
  variables it updates: the document so far and \<open>hasNews\<close>.
\<close>

function newsLoop :: "row \<Rightarrow> nat \<Rightarrow> jsstring \<Rightarrow> bool \<Rightarrow> jsstring \<times> bool" where
  "newsLoop item i fullMd hasNews =
     (if i \<le> 5 then
        (let title = item (newsKey i ''_title'');
             newsDate = item (newsKey i ''_date'');
             link = item (newsKey i ''_link'')
         in if truthyTrim title \<and> truthyTrim link then
              (let fullMd1 = fullMd @ mdBulletOpen @ trimOf title @ mdBulletMid @ trimOf link @
                              mdBulletClose;
                   fullMd2 = (if truthyTrim newsDate then fullMd1 @ mdDot @ trimOf newsDate
                              else fullMd1)
               in newsLoop item (i + 1) (fullMd2 @ [nl]) True)
            else newsLoop item (i + 1) fullMd hasNews)
      else (fullMd, hasNews))"
  by pat_completeness auto
termination
  by (relation "measure (\<lambda>(item, i, fullMd, hasNews). 6 - i)") auto

declare newsLoop.simps [simp del]

text \<open>
  The body of \<open>for (const item of newsData)\<close>: the lines it appends to the log, and the
  section it appends to the document.
\<close>

definition renderItem :: "row \<Rightarrow> jsstring \<times> logline list \<Rightarrow> jsstring \<times> logline list" where
  "renderItem item = (\<lambda>(fullMd, logged).
     let ticker = item tickerKey;
         thesis = item thesisKey;
         logged1 = logged @ [(msgProcessing @ toStr ticker, LDefault)];
         (tickerDisplay, logged2) =
           (if truthyTrim thesis then
              (mdRefOpen @ toStr thesis @ mdRefMid @ toStr ticker @ mdRefClose,
               logged1 @ [(msgLinked @ toStr thesis, LDefault)])
            else (toStr ticker, logged1));
         fullMd1 = fullMd @ mdHeading @ tickerDisplay @ [nl, nl];
         (fullMd2, hasNews) = newsLoop item 1 fullMd1 False;
         fullMd3 = (if \<not> hasNews then fullMd2 @ mdNoNews else fullMd2)
     in (fullMd3 @ [nl], logged2))"

definition buildMd :: "jsstring option \<Rightarrow> row list \<Rightarrow> jsstring \<times> logline list" where
  "buildMd date newsData = fold renderItem newsData (mdTitle date, [])"

subsection \<open>Remote-service variant\<close>

text \<open>
  An item of the list \<open>newsData.news\<close>: its string properties, shaped like a row, and the
  optional object \<open>symbol_info\<close> with its two optional strings. Properties holding
  numbers, booleans or \<open>null\<close> are outside the model.
\<close>

record symbolInfo =
  sector :: "jsstring option"
  earnings_date :: "jsstring option"

record newsItem =
  props :: row
  symbol_info :: "symbolInfo option"

function newsLoopB :: "row \<Rightarrow> nat \<Rightarrow> jsstring \<Rightarrow> bool \<Rightarrow> jsstring \<times> bool" where
  "newsLoopB item i fullMd hasNews =
     (if i \<le> 5 then
        (let title = item (newsKey i ''_title'');
             date = item (newsKey i ''_date'');
             link = item (newsKey i ''_link'')
         in if truthyTrim title \<and> truthyTrim link then
              (let fullMd1 = fullMd @ mdBulletOpen @ trimOf title @ mdBulletMid @ trimOf link @
                              mdBulletClose;
                   fullMd2 = (if truthyTrim date then fullMd1 @ mdDot @ trimOf date
                              else fullMd1)
               in newsLoopB item (i + 1) (fullMd2 @ [nl]) True)
            else newsLoopB item (i + 1) fullMd hasNews)
      else (fullMd, hasNews))"
  by pat_completeness auto
termination
  by (relation "measure (\<lambda>(item, i, fullMd, hasNews). 6 - i)") auto

declare newsLoopB.simps [simp del]

text \<open>
  \<open>symbol_info.sector || 'N/A'\<close>, then the earnings date when it is truthy.
\<close>

definition symbolInfoMd :: "symbolInfo \<Rightarrow> jsstring" where
  "symbolInfoMd info =
     (let md1 = mdDot @ (if truthy (sector info) then toStr (sector info) else mdNA)
      in if truthy (earnings_date info) then md1 @ mdEarnings @ toStr (earnings_date info)
         else md1)"

definition renderItemB :: "newsItem \<Rightarrow> jsstring \<times> logline list \<Rightarrow> jsstring \<times> logline list" where
  "renderItemB item = (\<lambda>(fullMd, logged).
     let ticker = props item tickerKey;
         thesis = props item thesisKey;
         logged1 = logged @ [(msgProcessing @ toStr ticker, LDefault)];
         (tickerDisplay, logged2) =
           (if truthyTrim thesis then
              (mdRefOpen @ toStr thesis @ mdRefMid @ toStr ticker @ mdRefClose,
               logged1 @ [(msgLinked @ toStr thesis, LDefault)])
            else (toStr ticker, logged1));
         fullMd1 = fullMd @ mdHeading @ tickerDisplay;
         fullMd2 = (case symbol_info item of
                      None \<Rightarrow> fullMd1
                    | Some info \<Rightarrow> fullMd1 @ symbolInfoMd info);
         fullMd3 = fullMd2 @ [nl, nl];
         (fullMd4, hasNews) = newsLoopB (props item) 1 fullMd3 False;
         fullMd5 = (if \<not> hasNews then fullMd4 @ mdNoNews else fullMd4)
     in (fullMd5 @ [nl], logged2))"


section \<open>The task orchestrator (direct-file variant)\<close>

text \<open>
  The requests an action can issue with \<open>fetch\<close>: the POST to the bridge
  (\<open>http://127.0.0.1:5000/run-task\<close>) with its task name, the GET and the HEAD of a local
  file, and the POST to \<open>/api/block/appendBlock\<close> with the markup and the parent
  identifier (the data type is always markdown).
\<close>

datatype request =
    PostBridge jsstring
  | GetFile jsstring
  | HeadFile jsstring
  | AppendBlock jsstring jsstring

text \<open>
  What a request comes back with: the promise of \<open>fetch\<close> is rejected with an error
  message, or it resolves to a response with its \<open>ok\<close> flag, its numeric status and its
  body. Reading the body (\<open>json()\<close>, \<open>text()\<close>, and the first property read of the parsed
  value) gives the value (\<open>Inr\<close>) or throws with a message (\<open>Inl\<close>).
\<close>

datatype 'a reply = Rejected jsstring | Response bool nat "jsstring + 'a"

text \<open>
  The parsed bodies, with the properties the code reads. A property that is missing or
  is no string reads as \<open>None\<close>; the four summary values are the strings that a template
  literal makes of them.
\<close>

record summary_block =
  total_value :: "jsstring option"
  unrealized_pl :: "jsstring option"
  total_dividends :: "jsstring option"
  position_count :: "jsstring option"

record pyresult =
  status :: "jsstring option"
  message :: "jsstring option"
  chart_status :: "jsstring option"
  summary :: "summary_block option"

record appenddata =
  code :: "int option"
  msg :: "jsstring option"

text \<open>
  The external collaborators. Each answers as a function of the number of requests issued
  before (so that the same request can be answered differently later) and of the request's
  parameters.
\<close>

record env =
  bridge :: "nat \<Rightarrow> jsstring \<Rightarrow> pyresult reply"
  getFile :: "nat \<Rightarrow> jsstring \<Rightarrow> jsstring reply"
  headFile :: "nat \<Rightarrow> jsstring \<Rightarrow> unit reply"
  appendBlock :: "nat \<Rightarrow> jsstring \<Rightarrow> jsstring \<Rightarrow> appenddata reply"

text \<open>
  The state the actions read and write: the log panel, the \<open>disabled\<close> flag of the three
  buttons, the value of the input \<open>targetDocId\<close>, the requests issued so far and the
  messages passed to \<open>console.error\<close>.
\<close>

record world =
  logOutput :: "logline list"
  workBtn_disabled :: bool
  importNewsBtn_disabled :: bool
  importChartBtn_disabled :: bool
  targetDocId :: jsstring
  requests :: "request list"
  console :: "jsstring list"

definition log :: "jsstring \<Rightarrow> level \<Rightarrow> world \<Rightarrow> world" where
  "log msg' type w = w\<lparr>logOutput := logOutput w @ [(msg', type)]\<rparr>"

definition consoleError :: "jsstring \<Rightarrow> world \<Rightarrow> world" where
  "consoleError e w = w\<lparr>console := console w @ [e]\<rparr>"

definition issue :: "request \<Rightarrow> world \<Rightarrow> world" where
  "issue req w = w\<lparr>requests := requests w @ [req]\<rparr>"

definition taskUpdate :: jsstring where
  "taskUpdate = ascii ''update_portfolio''"

definition success :: jsstring where
  "success = ascii ''success''"

definition warning :: jsstring where
  "warning = ascii ''warning''"

subsection \<open>Update data\<close>

text \<open>
  The \<open>try\<close> block of \<open>runPortfolioUpdate\<close>: \<open>Inl\<close> is the message of the error it
  throws, \<open>Inr ()\<close> its normal end.
\<close>

definition runPortfolioUpdate_try :: "env \<Rightarrow> world \<Rightarrow> (jsstring + unit) \<times> world" where
  "runPortfolioUpdate_try env w0 =
     (let w1 = log msgRunScript LInfo w0;
          bridgeRes = bridge env (length (requests w1)) taskUpdate;
          w2 = issue (PostBridge taskUpdate) w1
      in case bridgeRes of
           Rejected e \<Rightarrow> (Inl e, w2)
         | Response ok st body \<Rightarrow>
             if \<not> ok then (Inl (errHttp @ showNat st), w2)
             else (case body of
                     Inl e \<Rightarrow> (Inl e, w2)
                   | Inr pyResult \<Rightarrow>
                       if status pyResult \<noteq> Some success then
                         (Inl (errPython @ toStr (message pyResult)), w2)
                       else
                         (let w3 = log msgNewsDone LSuccess (log msgHistoryDone LSuccess w2);
                              w4 = (if chart_status pyResult = Some success then
                                      log msgChartDone LSuccess w3
                                    else if chart_status pyResult = Some warning then
                                      log msgChartWarning LWarning w3
                                    else w3);
                              w5 = (case summary pyResult of
                                      None \<Rightarrow> w4
                                    | Some s \<Rightarrow>
                                        log (msgPositions @ toStr (position_count s)) LDefault
                                          (log (msgDividends @ toStr (total_dividends s)) LDefault
                                            (log (msgUnrealized @ toStr (unrealized_pl s)) LDefault
                                              (log (msgTotalValue @ toStr (total_value s)) LDefault
                                                (log msgSummary LInfo w4)))))
                          in (Inr (), log msgHint LInfo w5))))"

text \<open>
  \<open>runPortfolioUpdate\<close>: the button is disabled, the panel emptied, the \<open>try\<close> block run;
  \<open>catch\<close> logs the error and \<open>finally\<close> enables the button. The function reads no
  target identifier, and no error leaves it.
\<close>

definition runPortfolioUpdate :: "env \<Rightarrow> world \<Rightarrow> world" where
  "runPortfolioUpdate env w =
     (let w1 = log msgUpdateStart LInfo (w\<lparr>workBtn_disabled := True, logOutput := []\<rparr>);
          (r, w2) = runPortfolioUpdate_try env w1;
          w3 = (case r of
                  Inl e \<Rightarrow> consoleError e (log (msgFailed @ e) LError w2)
                | Inr _ \<Rightarrow> w2)
      in w3\<lparr>workBtn_disabled := False\<rparr>)"

subsection \<open>Import news\<close>

definition importNewsToSiyuan_try ::
  "env \<Rightarrow> jsstring \<Rightarrow> world \<Rightarrow> (jsstring + unit) \<times> world" where
  "importNewsToSiyuan_try env targetId w0 =
     (let w1 = log msgReadNews LInfo w0;
          newsPath = SIYUAN_STORAGE_PATH @ newsFileName;
          fileRes = getFile env (length (requests w1)) newsPath;
          w2 = issue (GetFile newsPath) w1
      in case fileRes of
           Rejected e \<Rightarrow> (Inl e, w2)
         | Response ok st body \<Rightarrow>
             if \<not> ok then (Inl (errNewsFile @ newsPath @ errRunUpdateFirst), w2)
             else (case body of
                     Inl e \<Rightarrow> (Inl e, w2)
                   | Inr csvText \<Rightarrow>
                       (case parseNewsCSV csvText of
                          [] \<Rightarrow> (Inl errNewsEmpty, w2)
                        | item0 # items \<Rightarrow>
                            (let newsData = item0 # items;
                                 w3 = log msgBuildMd LInfo w2;
                                 date = item0 Date;
                                 (fullMd, logged) = buildMd date newsData;
                                 w4 = w3\<lparr>logOutput := logOutput w3 @ logged\<rparr>;
                                 w5 = log msgSync LInfo w4;
                                 appendRes = appendBlock env (length (requests w5)) fullMd targetId;
                                 w6 = issue (AppendBlock fullMd targetId) w5
                             in case appendRes of
                                  Rejected e \<Rightarrow> (Inl e, w6)
                                | Response ok' st' body' \<Rightarrow>
                                    (case body' of
                                       Inl e \<Rightarrow> (Inl e, w6)
                                     | Inr appendData \<Rightarrow>
                                         if code appendData = Some 0 then
                                           (let linkedCount =
                                                  length (filter (\<lambda>item. truthyTrim (item thesisKey))
                                                            newsData);
                                                w7 = log (msgNewsOk1 @ showNat (length newsData) @
                                                            msgNewsOk2) LSuccess w6;
                                                w8 = (if linkedCount > 0 then
                                                        log (msgLinkedCount1 @ showNat linkedCount @
                                                               msgLinkedCount2) LSuccess w7
                                                      else w7)
                                            in (Inr (), w8))
                                         else (Inl (errSiyuanApi @ toStr (msg appendData)), w6))))))"

text \<open>
  \<open>importNewsToSiyuan\<close>: a blank target identifier is answered by one error line and
  \<open>return\<close>; otherwise the button is disabled around the \<open>try\<close> block.
\<close>

definition importNewsToSiyuan :: "env \<Rightarrow> world \<Rightarrow> world" where
  "importNewsToSiyuan env w =
     (let targetId = trim (targetDocId w) in
      if targetId = [] then log msgMissingTarget LError w
      else
        (let w1 = log msgNewsStart LInfo (w\<lparr>importNewsBtn_disabled := True\<rparr>);
             (r, w2) = importNewsToSiyuan_try env targetId w1;
             w3 = (case r of
                     Inl e \<Rightarrow> consoleError e (log (msgFailed @ e) LError w2)
                   | Inr _ \<Rightarrow> w2)
         in w3\<lparr>importNewsBtn_disabled := False\<rparr>))"

subsection \<open>Import chart\<close>

definition importChartToSiyuan_try ::
  "env \<Rightarrow> jsstring \<Rightarrow> world \<Rightarrow> (jsstring + unit) \<times> world" where
  "importChartToSiyuan_try env targetId w0 =
     (let chartPath = SIYUAN_STORAGE_PATH @ chartFileName;
          w1 = log msgCheckChart LInfo w0;
          testRes = headFile env (length (requests w1)) chartPath;
          w2 = issue (HeadFile chartPath) w1
      in case testRes of
           Rejected e \<Rightarrow> (Inl e, w2)
         | Response ok st body \<Rightarrow>
             if \<not> ok then (Inl (errChartFile @ chartPath @ errRunUpdateFirst), w2)
             else
               (let w3 = log msgChartFound LSuccess w2;
                    iframeHtml = iframeOpen @ chartPath @ iframeClose;
                    w4 = log msgEmbed LInfo w3;
                    appendRes = appendBlock env (length (requests w4)) iframeHtml targetId;
                    w5 = issue (AppendBlock iframeHtml targetId) w4
                in case appendRes of
                     Rejected e \<Rightarrow> (Inl e, w5)
                   | Response ok' st' body' \<Rightarrow>
                       (case body' of
                          Inl e \<Rightarrow> (Inl e, w5)
                        | Inr appendData \<Rightarrow>
                            if code appendData = Some 0 then
                              (Inr (),
                               log msgChartInfo4 LDefault
                                 (log msgChartInfo3 LDefault
                                   (log msgChartInfo2 LDefault
                                     (log msgChartInfo1 LDefault
                                       (log msgChartInfo LInfo
                                         (log msgChartOk LSuccess w5))))))
                            else (Inl (errSiyuanApi @ toStr (msg appendData)), w5))))"

definition importChartToSiyuan :: "env \<Rightarrow> world \<Rightarrow> world" where
  "importChartToSiyuan env w =
     (let targetId = trim (targetDocId w) in
      if targetId = [] then log msgMissingTarget LError w
      else
        (let w1 = log msgChartStart LInfo (w\<lparr>importChartBtn_disabled := True\<rparr>);
             (r, w2) = importChartToSiyuan_try env targetId w1;
             w3 = (case r of
                     Inl e \<Rightarrow> consoleError e (log (msgFailed @ e) LError w2)
                   | Inr _ \<Rightarrow> w2)
         in w3\<lparr>importChartBtn_disabled := False\<rparr>))"

subsection \<open>Run all\<close>

text \<open>
  \<open>importFullPortfolio\<close>. The three steps are the three actions above, awaited one after
  the other; each of them catches its own errors and returns normally, so the \<open>try\<close>
  block here runs to its last line and the \<open>catch\<close> clause (which would log that the
  pipeline was interrupted) has nothing to catch. The wait of one second between the first
  two steps changes nothing in the state.
\<close>

definition importFullPortfolio :: "env \<Rightarrow> world \<Rightarrow> world" where
  "importFullPortfolio env w =
     (let targetId = trim (targetDocId w) in
      if targetId = [] then log msgMissingTarget LError w
      else
        (let w1 = log msgFullStart LInfo
                    (w\<lparr>workBtn_disabled := True, importNewsBtn_disabled := True,
                       importChartBtn_disabled := True, logOutput := []\<rparr>);
             w2 = runPortfolioUpdate env (log msgStep1 LInfo w1);
             w3 = importNewsToSiyuan env (log msgStep2 LInfo w2);
             w4 = importChartToSiyuan env (log msgStep3 LInfo w3);
             w5 = log msgFullOk LSuccess w4
         in w5\<lparr>workBtn_disabled := False, importNewsBtn_disabled := False,
               importChartBtn_disabled := False\<rparr>))"

section \<open>The prefix-run of the specification, and sample inputs\<close>

text \<open>
  The specification's words for the selector's result, "the prefix-run of records sharing
  the first record's Date": the longest prefix of the rows whose \<open>Date\<close> is that of the row
  at position 0. It is compared with \<open>latestSnapshot\<close> below.
\<close>

definition prefixRun :: "row list \<Rightarrow> row list" where
  "prefixRun data =
     (case data of
        [] \<Rightarrow> []
      | row0 # _ \<Rightarrow> takeWhile (\<lambda>row. row Date = row0 Date) data)"

text \<open>
  A file of four lines after trimming: the header \<open>a|b\<close>, two lines of two values and, between
  them, a line of one value.
\<close>

definition sampleCsv :: jsstring where
  "sampleCsv =
     ascii ''a|b'' @ [nl] @ ascii '' 1|2 '' @ [nl] @ ascii ''x'' @ [nl] @ ascii ''3|4'' @ [nl]"

text \<open>
  A file whose header and values carry blanks around them, with a line of one value and
  lines of two dates: after trimming, the header \<open>Date | t\<close> and four data lines.
\<close>

definition datedCsv :: jsstring where
  "datedCsv =
     ascii '' Date | t '' @ [nl] @ ascii ''D2| A '' @ [nl] @ ascii ''x'' @ [nl] @
     ascii ''D1|B'' @ [nl] @ ascii ''D2|'' @ [nl]"

text \<open>A header and two data lines of two values each, of different dates.\<close>

definition twoDatesCsv :: jsstring where
  "twoDatesCsv = ascii ''Date|t'' @ [nl] @ ascii ''D2|A'' @ [nl] @ ascii ''D1|B''"

text \<open>A file whose only data line has one value under a header of two.\<close>

definition shortRowCsv :: jsstring where
  "shortRowCsv = ascii ''a|b'' @ [nl] @ ascii ''1''"

text \<open>Three rows: two of the date \<open>D2\<close>, one of the date \<open>D1\<close>.\<close>

definition rowA :: row where
  "rowA = [Date \<mapsto> ascii ''D2'', tickerKey \<mapsto> ascii ''A'']"

definition rowB :: row where
  "rowB = [Date \<mapsto> ascii ''D1'', tickerKey \<mapsto> ascii ''B'']"

definition rowC :: row where
  "rowC = [Date \<mapsto> ascii ''D2'', tickerKey \<mapsto> ascii ''C'']"

section \<open>The renderer in the specification's words\<close>

text \<open>
  "Non-blank after trimming": the value is present and its trimmed form is not empty.
\<close>

fun nonBlank :: "jsstring option \<Rightarrow> bool" where
  "nonBlank None = False"
| "nonBlank (Some s) = (trim s \<noteq> [])"

text \<open>
  The label of a section: the cross-reference token with the thesis identifier and the
  ticker as display text when the thesis is non-blank, the plain ticker otherwise.
\<close>

definition headingLabel :: "row \<Rightarrow> jsstring" where
  "headingLabel item =
     (if nonBlank (item thesisKey) then
        mdRefOpen @ toStr (item thesisKey) @ mdRefMid @ toStr (item tickerKey) @ mdRefClose
      else toStr (item tickerKey))"

text \<open>
  A news group is shown when its title and its link are both non-blank after trimming. Its
  list line has the trimmed title as link text, the trimmed link as target and, when the
  group's date is non-blank, the trimmed date after a middle dot.
\<close>

definition groupShown :: "row \<Rightarrow> nat \<Rightarrow> bool" where
  "groupShown item i \<longleftrightarrow>
     nonBlank (item (newsKey i ''_title'')) \<and> nonBlank (item (newsKey i ''_link''))"

definition linkLine :: "row \<Rightarrow> nat \<Rightarrow> jsstring" where
  "linkLine item i =
     mdBulletOpen @ trimOf (item (newsKey i ''_title'')) @ mdBulletMid @
     trimOf (item (newsKey i ''_link'')) @ mdBulletClose @
     (if nonBlank (item (newsKey i ''_date'')) then mdDot @ trimOf (item (newsKey i ''_date''))
      else []) @ [nl]"

text \<open>
  The lines of a section under its heading: the list lines of the shown groups among the
  groups 1 to 5, in order, or the placeholder line when no group is shown.
\<close>

definition newsBlock :: "row \<Rightarrow> jsstring" where
  "newsBlock item =
     (if \<exists>i \<in> {1..5}. groupShown item i then
        concat (map (\<lambda>i. if groupShown item i then linkLine item i else []) [1, 2, 3, 4, 5])
      else mdNoNews)"

text \<open>Two items: one with a thesis and one shown news group, one with neither.\<close>

definition itemLinked :: row where
  "itemLinked =
     [tickerKey \<mapsto> ascii ''AAPL'', thesisKey \<mapsto> ascii ''thesis123'',
      newsKey 1 ''_title'' \<mapsto> ascii '' Apple event '',
      newsKey 1 ''_date'' \<mapsto> ascii ''2024-01-04'',
      newsKey 1 ''_link'' \<mapsto> ascii ''http://x'',
      newsKey 2 ''_title'' \<mapsto> ascii ''title without link'']"

definition itemPlain :: row where
  "itemPlain = [tickerKey \<mapsto> ascii ''MSFT'', thesisKey \<mapsto> ascii ''  '']"

section \<open>Sample states and collaborators\<close>

text \<open>An idle interface with the given text in the target input.\<close>

definition idleWorld :: "jsstring \<Rightarrow> world" where
  "idleWorld target =
     \<lparr>logOutput = [], workBtn_disabled = False, importNewsBtn_disabled = False,
      importChartBtn_disabled = False, targetDocId = target, requests = [], console = []\<rparr>"

text \<open>
  Collaborators that all fail: the bridge answers with the status 500, the two files are
  not found, and the append request is rejected.
\<close>

definition envDown :: env where
  "envDown =
     \<lparr>bridge = (\<lambda>n task. Response False 500 (Inl [])),
      getFile = (\<lambda>n path. Response False 404 (Inl [])),
      headFile = (\<lambda>n path. Response False 404 (Inl [])),
      appendBlock = (\<lambda>n markup parent. Rejected [])\<rparr>"

text \<open>
  A bridge that answers 200 with a status flag other than \<open>success\<close>, the other
  collaborators failing as before.
\<close>

definition envScriptError :: env where
  "envScriptError =
     envDown\<lparr>bridge := (\<lambda>n task. Response True 200
        (Inr \<lparr>status = Some (ascii ''error''), message = Some (ascii ''boom''),
              chart_status = None, summary = None\<rparr>))\<rparr>"

section \<open>Facts about splitting and trimming\<close>

lemma split_not_Nil: "split sep s \<noteq> []"
  by (induction s) (auto split: list.splits)

lemma trim_Nil: "trim [] = []"
  by (simp add: trim_def)

section \<open>The record parser\<close>

lemma cell_trim: "index < length values \<Longrightarrow> cell values index = trim (values ! index)"
  by (simp add: cell_def trim_Nil)

lemma rowProps_Nil: "rowProps [] values = []"
  by (simp add: rowProps_def)

lemma rowProps_snoc:
  "rowProps (headers @ [header]) values =
     setProp header (cell values (length headers)) (rowProps headers values)"
  by (simp add: rowProps_def enumerate_append_eq)

lemma map_of_replace:
  "map_of (map (\<lambda>(name, old). if name = key then (name, v) else (name, old)) own) name =
     (if name = key then map_option (\<lambda>old. v) (map_of own key) else map_of own name)"
  by (induction own arbitrary: name) (simp_all add: case_prod_beta)

lemma map_of_insert:
  "key \<notin> fst ` set xs \<Longrightarrow>
   map_of (xs @ (key, v) # ys) name = (if name = key then Some v else map_of (xs @ ys) name)"
  by (induction xs arbitrary: name) (simp_all add: image_iff)

lemma map_of_setProp:
  "map_of (setProp key v own) =
     (if key = protoKey then map_of own else (map_of own)(key \<mapsto> v))"
proof (rule ext)
  fix name
  let ?P = "\<lambda>(name, old :: jsstring). isArrayIndex name \<and> indexValue name < indexValue key"
  show "map_of (setProp key v own) name =
      (if key = protoKey then map_of own else (map_of own)(key \<mapsto> v)) name"
  proof (cases "key = protoKey")
    case True
    then show ?thesis by (simp add: setProp_def)
  next
    case proto: False
    show ?thesis
    proof (cases "key \<in> fst ` set own")
      case True
      then obtain old where "map_of own key = Some old"
        by (metis domD dom_map_of_conv_image_fst)
      with proto True show ?thesis
        by (simp add: setProp_def map_of_replace)
    next
      case new: False
      show ?thesis
      proof (cases "isArrayIndex key")
        case True
        from new have "key \<notin> fst ` set (takeWhile ?P own)"
          by (auto dest: set_takeWhileD)
        from map_of_insert [OF this, of v "dropWhile ?P own" name]
        have "map_of (takeWhile ?P own @ (key, v) # dropWhile ?P own) name =
            (if name = key then Some v else map_of own name)"
          by simp
        with proto new True show ?thesis
          by (simp add: setProp_def)
      next
        case False
        from map_of_insert [OF new, of v "[]" name]
        have "map_of (own @ [(key, v)]) name = (if name = key then Some v else map_of own name)"
          by simp
        with proto new False show ?thesis
          by (simp add: setProp_def)
      qed
    qed
  qed
qed

lemma mkRow_Nil: "mkRow [] values = Map.empty"
  by (simp add: mkRow_def rowProps_Nil)

lemma mkRow_snoc:
  "mkRow (headers @ [header]) values =
     (if header = protoKey then mkRow headers values
      else (mkRow headers values)(header \<mapsto> cell values (length headers)))"
  by (simp only: mkRow_def rowProps_snoc map_of_setProp)

lemma dom_mkRow: "dom (mkRow headers values) = set headers - {protoKey}"
proof (induction headers rule: rev_induct)
  case Nil
  show ?case by (simp add: mkRow_Nil)
next
  case (snoc h hs)
  show ?case
  proof (cases "h = protoKey")
    case True
    with snoc show ?thesis by (auto simp: mkRow_snoc)
  next
    case False
    then have "dom (mkRow (hs @ [h]) values) = insert h (dom (mkRow hs values))"
      by (simp add: mkRow_snoc)
    with snoc False show ?thesis by auto
  qed
qed

lemma mkRow_lookup:
  "j < length headers \<Longrightarrow> headers ! j \<noteq> protoKey \<Longrightarrow>
   \<forall>k. j < k \<and> k < length headers \<longrightarrow> headers ! k \<noteq> headers ! j \<Longrightarrow>
   mkRow headers values (headers ! j) = Some (cell values j)"
proof (induction headers rule: rev_induct)
  case Nil
  then show ?case by simp
next
  case (snoc h hs)
  show ?case
  proof (cases "j = length hs")
    case True
    with snoc.prems(2) show ?thesis by (simp add: mkRow_snoc)
  next
    case False
    with snoc.prems(1) have j: "j < length hs" by simp
    have ne: "h \<noteq> hs ! j"
      using snoc.prems(3) [rule_format, of "length hs"] j by (simp add: nth_append)
    have np: "hs ! j \<noteq> protoKey"
      using snoc.prems(2) j by (simp add: nth_append)
    have "\<forall>k. j < k \<and> k < length hs \<longrightarrow> hs ! k \<noteq> hs ! j"
    proof (intro allI impI)
      fix k assume k: "j < k \<and> k < length hs"
      with snoc.prems(3) [rule_format, of k] show "hs ! k \<noteq> hs ! j"
        by (simp add: nth_append)
    qed
    with snoc.IH j np have "mkRow hs values (hs ! j) = Some (cell values j)" by blast
    with ne j show ?thesis by (simp add: mkRow_snoc nth_append)
  qed
qed

lemma keys_rowProps: "fst ` set (rowProps headers values) = set headers - {protoKey}"
  using dom_mkRow [of headers "values"] by (simp add: mkRow_def dom_map_of_conv_image_fst)

text \<open>
  Header names that are distinct, none of them \<open>__proto__\<close> or an array index, become the
  properties of the row in the order of the header.
\<close>

lemma rowProps_plain:
  "distinct headers \<Longrightarrow> \<forall>h \<in> set headers. h \<noteq> protoKey \<and> \<not> isArrayIndex h \<Longrightarrow>
   rowProps headers values = zip headers (map (cell values) [0..<length headers])"
proof (induction headers rule: rev_induct)
  case Nil
  show ?case by (simp add: rowProps_Nil)
next
  case (snoc h hs)
  then have IH: "rowProps hs values = zip hs (map (cell values) [0..<length hs])"
    by simp
  from snoc.prems have h: "h \<noteq> protoKey" "\<not> isArrayIndex h" "h \<notin> set hs"
    by simp_all
  from h(3) have "h \<notin> fst ` set (rowProps hs values)"
    by (simp add: keys_rowProps)
  with h have "setProp h (cell values (length hs)) (rowProps hs values) =
      rowProps hs values @ [(h, cell values (length hs))]"
    by (simp add: setProp_def)
  then show ?case
    by (simp add: rowProps_snoc IH)
qed

lemma map_cell_trim:
  "length values = n \<Longrightarrow> map (cell values) [0..<n] = map trim values"
  by (auto simp: list_eq_iff_nth_eq cell_trim)

lemma parseLoop_eq:
  "parseLoop headers ls data =
     data @ map (\<lambda>l. mkRow headers (split bar l))
              (filter (\<lambda>l. length (split bar l) = length headers) ls)"
  by (induction ls arbitrary: data) (auto simp: Let_def)

lemma parseData_eq:
  "2 \<le> length (csvLines csvText) \<Longrightarrow>
   parseData csvText =
     map (\<lambda>l. mkRow (csvHeaders (csvLines csvText)) (split bar l))
       (filter (\<lambda>l. length (split bar l) = length (csvHeaders (csvLines csvText)))
          (drop 1 (csvLines csvText)))"
  by (simp add: parseData_def Let_def parseLoop_eq)

lemma parseData_short: "length (csvLines csvText) < 2 \<Longrightarrow> parseData csvText = []"
  by (simp add: parseData_def)

lemma length_csvHeaders: "length (csvHeaders lines) = length (split bar (lines ! 0))"
  by (simp add: csvHeaders_def)

lemma sampleCsv_lines:
  "csvLines sampleCsv = [ascii ''a|b'', ascii '' 1|2 '', ascii ''x'', ascii ''3|4'']"
  by (simp add: sampleCsv_def csvLines_def ascii_def nl_def trim_def isWhiteSpace_def)

section \<open>The latest-snapshot selector\<close>

lemma latestSnapshot_Nil: "latestSnapshot [] = []"
  by (simp add: latestSnapshot_def)

lemma latestSnapshot_Cons:
  "latestSnapshot (r # rs) = r # filter (\<lambda>row. row Date = r Date) rs"
  by (simp add: latestSnapshot_def)

lemma latestSnapshot_eq_Nil: "latestSnapshot data = [] \<longleftrightarrow> data = []"
  by (cases data) (simp_all add: latestSnapshot_Nil latestSnapshot_Cons)

lemma shortRowCsv_lines: "csvLines shortRowCsv = [ascii ''a|b'', ascii ''1'']"
  by (simp add: shortRowCsv_def csvLines_def ascii_def nl_def trim_def isWhiteSpace_def)

text \<open>
  Against C4 as stated: an input with a header line and one data line whose result is
  empty, because the data line has one value under a header of two.
\<close>

theorem parseNewsCSV_short_row_counterexample:
  "length (csvLines shortRowCsv) = 2 \<and> parseNewsCSV shortRowCsv = []"
  by (simp add: parseNewsCSV_def parseData_def shortRowCsv_lines csvHeaders_def latestSnapshot_Nil
        ascii_def bar_def)

text \<open>
  C4 (amended). \<open>parseNewsCSV\<close> returns the empty list exactly when the trimmed input has
  fewer than two lines or no data line has as many pipe-delimited values as the header
  line; in particular an input of fewer than two lines gives the empty list, and an input
  with at least one data line of the header's field count gives a non-empty one.
\<close>

theorem parseNewsCSV_empty_iff:
  "parseNewsCSV csvText = [] \<longleftrightarrow>
     length (csvLines csvText) < 2 \<or>
     (\<forall>line \<in> set (drop 1 (csvLines csvText)).
        length (split bar line) \<noteq> length (split bar (csvLines csvText ! 0)))"
proof (cases "length (csvLines csvText) < 2")
  case True
  then show ?thesis by (simp add: parseNewsCSV_def parseData_short latestSnapshot_Nil)
next
  case False
  then have "2 \<le> length (csvLines csvText)" by simp
  from parseData_eq [OF this] False show ?thesis
    by (simp add: parseNewsCSV_def latestSnapshot_eq_Nil length_csvHeaders filter_empty_conv)
qed

theorem parseNewsCSV_empty_iff_witness:
  "\<not> length (csvLines sampleCsv) < 2 \<and>
   \<not> (\<forall>line \<in> set (drop 1 (csvLines sampleCsv)).
        length (split bar line) \<noteq> length (split bar (csvLines sampleCsv ! 0))) \<and>
   parseNewsCSV sampleCsv \<noteq> []"
proof -
  have a: "\<not> length (csvLines sampleCsv) < 2"
    by (simp add: sampleCsv_lines)
  have b: "\<not> (\<forall>line \<in> set (drop 1 (csvLines sampleCsv)).
        length (split bar line) \<noteq> length (split bar (csvLines sampleCsv ! 0)))"
    by (simp add: sampleCsv_lines) (simp add: ascii_def bar_def)
  from a b parseNewsCSV_empty_iff [of sampleCsv] show ?thesis by blast
qed

text \<open>
  C5. The selector returns, of a non-empty list of rows, the rows whose \<open>Date\<close> equals the
  \<open>Date\<close> of the row at position 0, in their order; of the empty list, the empty list.
\<close>

theorem latestSnapshot_filter:
  "latestSnapshot [] = [] \<and>
   (data \<noteq> [] \<longrightarrow> latestSnapshot data = filter (\<lambda>row. row Date = (data ! 0) Date) data)"
  by (cases data) (simp_all add: latestSnapshot_Nil latestSnapshot_Cons)

lemma sample_dates:
  "rowA Date = Some (ascii ''D2'')" "rowB Date = Some (ascii ''D1'')" "rowC Date = Some (ascii ''D2'')"
  by (simp_all add: rowA_def rowB_def rowC_def Date_def tickerKey_def ascii_def)

lemma D1_neq_D2: "ascii ''D1'' \<noteq> ascii ''D2''"
  by (simp add: ascii_def)

theorem latestSnapshot_filter_witness:
  "[rowA, rowB, rowC] \<noteq> [] \<and> latestSnapshot [rowA, rowB, rowC] = [rowA, rowC]"
  using latestSnapshot_filter [of "[rowA, rowB, rowC]"] D1_neq_D2
  by (simp add: sample_dates)

text \<open>
  Against C6 as stated: of three rows dated \<open>D2\<close>, \<open>D1\<close>, \<open>D2\<close> the selector keeps the
  first and the third, while the prefix-run is the first row alone.
\<close>

theorem latestSnapshot_later_match_counterexample:
  "latestSnapshot [rowA, rowB, rowC] = [rowA, rowC] \<and> prefixRun [rowA, rowB, rowC] = [rowA]"
  using D1_neq_D2 by (simp add: latestSnapshot_Cons prefixRun_def sample_dates)

lemma filter_takeWhile_dropWhile:
  "filter P xs = takeWhile P xs @ filter P (dropWhile P xs)"
  by (induction xs) simp_all

text \<open>
  C6 (amended). Of a non-empty list of rows the selector returns the prefix-run of rows
  sharing the first row's \<open>Date\<close>, followed by every later row whose \<open>Date\<close> equals the
  first row's \<open>Date\<close> again, in order. Its result is the prefix-run alone exactly when no
  row after the prefix-run has that \<open>Date\<close> (as for the dates \<open>D2\<close>, \<open>D2\<close>, \<open>D1\<close>, which
  select the first two rows).
\<close>

theorem latestSnapshot_prefixRun:
  assumes "data \<noteq> []"
  shows "latestSnapshot data =
           prefixRun data @
           filter (\<lambda>row. row Date = (data ! 0) Date) (drop (length (prefixRun data)) data) \<and>
         (latestSnapshot data = prefixRun data \<longleftrightarrow>
            (\<forall>row \<in> set (drop (length (prefixRun data)) data). row Date \<noteq> (data ! 0) Date))"
proof -
  from assms obtain r rs where data: "data = r # rs" by (cases data) auto
  define P where "P = (\<lambda>row :: row. row Date = r Date)"
  have pr: "prefixRun data = takeWhile P data"
    by (simp add: data prefixRun_def P_def)
  have ls: "latestSnapshot data = filter P data"
    by (simp add: data latestSnapshot_Cons P_def)
  have dr: "drop (length (takeWhile P data)) data = dropWhile P data"
    by (simp only: dropWhile_eq_drop)
  have d0: "(\<lambda>row :: row. row Date = (data ! 0) Date) = P"
    by (simp add: data P_def)
  have split: "filter P data = takeWhile P data @ filter P (dropWhile P data)"
    by (rule filter_takeWhile_dropWhile)
  have first: "latestSnapshot data = prefixRun data @ filter P (drop (length (prefixRun data)) data)"
    by (simp only: ls pr dr) (rule split)
  have "latestSnapshot data = prefixRun data \<longleftrightarrow> filter P (dropWhile P data) = []"
    by (simp only: ls pr split append_self_conv)
  also have "\<dots> \<longleftrightarrow> (\<forall>row \<in> set (dropWhile P data). \<not> P row)"
    by (simp only: filter_empty_conv)
  finally have second: "latestSnapshot data = prefixRun data \<longleftrightarrow>
      (\<forall>row \<in> set (drop (length (prefixRun data)) data). row Date \<noteq> (data ! 0) Date)"
    by (simp only: pr dr) (simp add: P_def data)
  from first second show ?thesis by (simp only: d0) 
qed

theorem latestSnapshot_prefixRun_witness:
  "[rowA, rowC, rowB] \<noteq> [] \<and> prefixRun [rowA, rowC, rowB] = [rowA, rowC] \<and>
   latestSnapshot [rowA, rowC, rowB] = [rowA, rowC]"
proof -
  have pr: "prefixRun [rowA, rowC, rowB] = [rowA, rowC]"
    using D1_neq_D2 by (simp add: prefixRun_def sample_dates)
  from latestSnapshot_prefixRun [of "[rowA, rowC, rowB]"] pr D1_neq_D2 show ?thesis
    by (simp add: sample_dates)
qed

text \<open>
  C9. The selector's result is non-empty if and only if its input is, and its first
  element is then the input's first row.
\<close>

theorem latestSnapshot_nonempty:
  "(latestSnapshot data \<noteq> [] \<longleftrightarrow> data \<noteq> []) \<and>
   (data \<noteq> [] \<longrightarrow> latestSnapshot data ! 0 = data ! 0)"
  by (cases data) (simp_all add: latestSnapshot_Nil latestSnapshot_Cons)

theorem latestSnapshot_nonempty_witness:
  "[rowB, rowA] \<noteq> [] \<and> latestSnapshot [rowB, rowA] \<noteq> [] \<and> latestSnapshot [rowB, rowA] ! 0 = rowB"
  using latestSnapshot_nonempty [of "[rowB, rowA]"] by simp

section \<open>The Records that the parser returns\<close>

text \<open>
  A header named \<open>__proto__\<close> leaves no property in the row: the row of the header
  \<open>Date|__proto__\<close> has the property \<open>Date\<close> alone.
\<close>

lemma rowProps_proto:
  "rowProps [Date, protoKey] [ascii ''D'', ascii ''x''] = [(Date, ascii ''D'')]"
  by (simp add: rowProps_def setProp_def cell_def Date_def protoKey_def ascii_def trim_def
        isWhiteSpace_def)

lemma twoDatesCsv_lines:
  "csvLines twoDatesCsv = [ascii ''Date|t'', ascii ''D2|A'', ascii ''D1|B'']"
  by (simp add: twoDatesCsv_def csvLines_def ascii_def nl_def trim_def isWhiteSpace_def)

lemma datedCsv_lines:
  "csvLines datedCsv =
     [ascii ''Date | t '', ascii ''D2| A '', ascii ''x'', ascii ''D1|B'', ascii ''D2|'']"
  by (simp add: datedCsv_def csvLines_def ascii_def nl_def trim_def isWhiteSpace_def)

lemma sample_splits:
  "split bar (ascii ''Date|t'') = [ascii ''Date'', ascii ''t'']"
  "split bar (ascii ''D2|A'') = [ascii ''D2'', ascii ''A'']"
  "split bar (ascii ''D1|B'') = [ascii ''D1'', ascii ''B'']"
  "split bar (ascii ''Date | t '') = [ascii ''Date '', ascii '' t '']"
  "split bar (ascii ''D2| A '') = [ascii ''D2'', ascii '' A '']"
  "split bar (ascii ''x'') = [ascii ''x'']"
  "split bar (ascii ''D2|'') = [ascii ''D2'', []]"
  by (simp_all add: ascii_def bar_def)

lemma sample_header_trims:
  "trim (ascii ''Date'') = Date" "trim (ascii ''Date '') = Date"
  "trim (ascii ''t'') = ascii ''t''" "trim (ascii '' t '') = ascii ''t''"
  "trim (ascii ''D2'') = ascii ''D2''" "trim (ascii ''D1'') = ascii ''D1''"
  "trim (ascii ''A'') = ascii ''A''" "trim (ascii '' A '') = ascii ''A''"
  "trim (ascii ''B'') = ascii ''B''"
  by (simp_all add: trim_def ascii_def Date_def isWhiteSpace_def)

lemma Date_t_plain:
  "distinct [Date, ascii ''t'']"
  "\<forall>h \<in> set [Date, ascii ''t'']. h \<noteq> protoKey \<and> \<not> isArrayIndex h"
  by (simp_all add: Date_def ascii_def protoKey_def isArrayIndex_def isDigit_def)

lemma Date_neq_t: "Date \<noteq> ascii ''t''" "ascii ''t'' \<noteq> Date"
  by (simp_all add: Date_def ascii_def)

lemma mkRow_Date_t:
  "mkRow [Date, ascii ''t''] [a, b] = [Date \<mapsto> trim a, ascii ''t'' \<mapsto> trim b]"
proof -
  have "rowProps [Date, ascii ''t''] [a, b] =
      zip [Date, ascii ''t''] (map (cell [a, b]) [0..<length [Date, ascii ''t'']])"
    by (rule rowProps_plain [OF Date_t_plain])
  also have "map (cell [a, b]) [0..<length [Date, ascii ''t'']] = map trim [a, b]"
    by (rule map_cell_trim) simp
  finally have "rowProps [Date, ascii ''t''] [a, b] = [(Date, trim a), (ascii ''t'', trim b)]"
    by simp
  then show ?thesis
    by (simp add: mkRow_def fun_eq_iff Date_neq_t)
qed

lemma mkRow_Date_t_Date: "mkRow [Date, ascii ''t''] [a, b] Date = Some (trim a)"
  by (simp add: mkRow_Date_t Date_neq_t)

text \<open>
  Against C3 as stated: a header of two fields and two data lines of two values each, of
  which \<open>parseNewsCSV\<close> returns one Record, the second line having another date than the
  first. And two rows whose properties are not the header names in header order: the name
  \<open>1\<close>, an array index, is enumerated before the name \<open>a\<close> that precedes it in the header,
  and a name that two columns carry is one property, with the value of the second column.
\<close>

theorem parseNewsCSV_dated_counterexample:
  "csvLines twoDatesCsv = [ascii ''Date|t'', ascii ''D2|A'', ascii ''D1|B''] \<and>
   length (split bar (ascii ''Date|t'')) = 2 \<and>
   length (split bar (ascii ''D2|A'')) = 2 \<and>
   length (split bar (ascii ''D1|B'')) = 2 \<and>
   length (parseData twoDatesCsv) = 2 \<and>
   parseNewsCSV twoDatesCsv = [mkRow [Date, ascii ''t''] [ascii ''D2'', ascii ''A'']] \<and>
   rowProps [ascii ''a'', ascii ''1''] [ascii ''x'', ascii ''y''] =
     [(ascii ''1'', ascii ''y''), (ascii ''a'', ascii ''x'')] \<and>
   rowProps [ascii ''a'', ascii ''a''] [ascii ''x'', ascii ''y''] = [(ascii ''a'', ascii ''y'')]"
proof -
  have pd: "parseData twoDatesCsv =
      [mkRow [Date, ascii ''t''] [ascii ''D2'', ascii ''A''],
       mkRow [Date, ascii ''t''] [ascii ''D1'', ascii ''B'']]"
    by (simp add: parseData_def twoDatesCsv_lines csvHeaders_def sample_splits sample_header_trims)
  have pn: "parseNewsCSV twoDatesCsv = [mkRow [Date, ascii ''t''] [ascii ''D2'', ascii ''A'']]"
    using D1_neq_D2
    by (simp add: parseNewsCSV_def pd latestSnapshot_Cons mkRow_Date_t_Date sample_header_trims)
  have ord: "rowProps [ascii ''a'', ascii ''1''] [ascii ''x'', ascii ''y''] =
      [(ascii ''1'', ascii ''y''), (ascii ''a'', ascii ''x'')]"
    by (simp add: rowProps_def setProp_def cell_def protoKey_def isArrayIndex_def isDigit_def
          indexValue_def ascii_def trim_def isWhiteSpace_def)
  have dup: "rowProps [ascii ''a'', ascii ''a''] [ascii ''x'', ascii ''y''] = [(ascii ''a'', ascii ''y'')]"
    by (simp add: rowProps_def setProp_def cell_def protoKey_def ascii_def trim_def
          isWhiteSpace_def)
  show ?thesis
    by (simp add: twoDatesCsv_lines sample_splits pd pn ord dup)
qed

text \<open>
  C3 (amended). Let \<open>lines\<close> be the lines of the trimmed input and \<open>headers\<close> the trimmed
  pipe-delimited fields of the first line, N of them. The parser builds, in the order of
  the lines, one Record for each data line that has exactly N pipe-delimited values, and
  nothing for any other line, which does not stop it; \<open>parseNewsCSV\<close> returns those of
  these Records whose \<open>Date\<close> equals the \<open>Date\<close> of the first of them. The Record
  of a line has, \<open>__proto__\<close> set aside, the header names as its properties; it maps the
  header name at position \<open>j\<close> (other than \<open>__proto__\<close>) to the trimmed value at position
  \<open>j\<close> (for a name that several columns carry, the last of these columns), an empty value
  to the empty string; and when the header names are distinct, none of them
  \<open>__proto__\<close> or an array index, its properties are the header names in header order
  with the trimmed values.
\<close>

theorem parseNewsCSV_records:
  assumes "lines = csvLines csvText"
    and "headers = map trim (split bar (lines ! 0))"
    and "records = map (\<lambda>line. mkRow headers (split bar line))
           (filter (\<lambda>line. length (split bar line) = length headers) (drop 1 lines))"
  shows "length headers = length (split bar (lines ! 0)) \<and>
     parseData csvText = records \<and>
     parseNewsCSV csvText = filter (\<lambda>record. record Date = (records ! 0) Date) records \<and>
     (\<forall>values. length values = length headers \<longrightarrow>
        dom (mkRow headers values) - {protoKey} = set headers - {protoKey} \<and>
        (\<forall>j < length headers.
           headers ! j \<noteq> protoKey \<and>
           (\<forall>k. j < k \<and> k < length headers \<longrightarrow> headers ! k \<noteq> headers ! j) \<longrightarrow>
           mkRow headers values (headers ! j) = Some (trim (values ! j))) \<and>
        (distinct headers \<and> (\<forall>h \<in> set headers. h \<noteq> protoKey \<and> \<not> isArrayIndex h) \<longrightarrow>
           rowProps headers values = zip headers (map trim values)))"
proof -
  have h: "headers = csvHeaders lines"
    by (simp add: assms(2) csvHeaders_def)
  have pd: "parseData csvText = records"
  proof (cases "2 \<le> length lines")
    case True
    with assms h show ?thesis by (simp add: parseData_eq)
  next
    case False
    with assms show ?thesis by (simp add: parseData_short)
  qed
  have pn: "parseNewsCSV csvText = filter (\<lambda>record. record Date = (records ! 0) Date) records"
    by (cases records) (simp_all add: parseNewsCSV_def pd latestSnapshot_Nil latestSnapshot_Cons)
  have rows: "dom (mkRow headers values) - {protoKey} = set headers - {protoKey} \<and>
        (\<forall>j < length headers.
           headers ! j \<noteq> protoKey \<and>
           (\<forall>k. j < k \<and> k < length headers \<longrightarrow> headers ! k \<noteq> headers ! j) \<longrightarrow>
           mkRow headers values (headers ! j) = Some (trim (values ! j))) \<and>
        (distinct headers \<and> (\<forall>h \<in> set headers. h \<noteq> protoKey \<and> \<not> isArrayIndex h) \<longrightarrow>
           rowProps headers values = zip headers (map trim values))"
    if len: "length values = length headers" for "values"
  proof (intro conjI allI impI)
    show "dom (mkRow headers values) - {protoKey} = set headers - {protoKey}"
      by (simp add: dom_mkRow)
  next
    fix j
    assume "j < length headers"
      and "headers ! j \<noteq> protoKey \<and>
           (\<forall>k. j < k \<and> k < length headers \<longrightarrow> headers ! k \<noteq> headers ! j)"
    with len show "mkRow headers values (headers ! j) = Some (trim (values ! j))"
      by (simp add: mkRow_lookup cell_trim)
  next
    assume "distinct headers \<and> (\<forall>h \<in> set headers. h \<noteq> protoKey \<and> \<not> isArrayIndex h)"
    then have "rowProps headers values = zip headers (map (cell values) [0..<length headers])"
      by (simp add: rowProps_plain)
    with len show "rowProps headers values = zip headers (map trim values)"
      by (simp add: map_cell_trim)
  qed
  from pd pn rows show ?thesis
    by (simp add: assms(2))
qed


theorem parseNewsCSV_records_witness:
  "csvLines datedCsv =
     [ascii ''Date | t '', ascii ''D2| A '', ascii ''x'', ascii ''D1|B'', ascii ''D2|''] \<and>
   map trim (split bar (csvLines datedCsv ! 0)) = [Date, ascii ''t''] \<and>
   parseData datedCsv =
     [mkRow [Date, ascii ''t''] [ascii ''D2'', ascii '' A ''],
      mkRow [Date, ascii ''t''] [ascii ''D1'', ascii ''B''],
      mkRow [Date, ascii ''t''] [ascii ''D2'', []]] \<and>
   parseNewsCSV datedCsv =
     [mkRow [Date, ascii ''t''] [ascii ''D2'', ascii '' A ''],
      mkRow [Date, ascii ''t''] [ascii ''D2'', []]] \<and>
   mkRow [Date, ascii ''t''] [ascii ''D2'', ascii '' A ''] (ascii ''t'') = Some (ascii ''A'') \<and>
   rowProps [Date, ascii ''t''] [ascii ''D2'', ascii '' A ''] =
     [(Date, ascii ''D2''), (ascii ''t'', ascii ''A'')] \<and>
   rowProps [Date, ascii ''t''] [ascii ''D2'', []] = [(Date, ascii ''D2''), (ascii ''t'', [])]"
proof -
  define records where "records =
      [mkRow [Date, ascii ''t''] [ascii ''D2'', ascii '' A ''],
       mkRow [Date, ascii ''t''] [ascii ''D1'', ascii ''B''],
       mkRow [Date, ascii ''t''] [ascii ''D2'', []]]"
  have hd: "map trim (split bar (csvLines datedCsv ! 0)) = [Date, ascii ''t'']"
    by (simp add: datedCsv_lines sample_splits sample_header_trims)
  have recs: "records = map (\<lambda>line. mkRow [Date, ascii ''t''] (split bar line))
      (filter (\<lambda>line. length (split bar line) = length [Date, ascii ''t''])
         (drop 1 (csvLines datedCsv)))"
    by (simp add: records_def datedCsv_lines sample_splits)
  note th = parseNewsCSV_records [OF refl hd [symmetric] recs]
  have pd: "parseData datedCsv = records"
    using th by simp
  have sel: "filter (\<lambda>record. record Date = (records ! 0) Date) records =
      [mkRow [Date, ascii ''t''] [ascii ''D2'', ascii '' A ''],
       mkRow [Date, ascii ''t''] [ascii ''D2'', []]]"
    using D1_neq_D2 by (simp add: records_def mkRow_Date_t_Date sample_header_trims)
  have pn: "parseNewsCSV datedCsv =
      [mkRow [Date, ascii ''t''] [ascii ''D2'', ascii '' A ''],
       mkRow [Date, ascii ''t''] [ascii ''D2'', []]]"
    using th sel by simp
  from th have rows: "\<And>vs. length vs = length [Date, ascii ''t''] \<Longrightarrow>
      (\<forall>j < length [Date, ascii ''t''].
         [Date, ascii ''t''] ! j \<noteq> protoKey \<and>
         (\<forall>k. j < k \<and> k < length [Date, ascii ''t''] \<longrightarrow>
            [Date, ascii ''t''] ! k \<noteq> [Date, ascii ''t''] ! j) \<longrightarrow>
         mkRow [Date, ascii ''t''] vs ([Date, ascii ''t''] ! j) = Some (trim (vs ! j))) \<and>
      (distinct [Date, ascii ''t''] \<and>
       (\<forall>h \<in> set [Date, ascii ''t'']. h \<noteq> protoKey \<and> \<not> isArrayIndex h) \<longrightarrow>
         rowProps [Date, ascii ''t''] vs = zip [Date, ascii ''t''] (map trim vs))"
    by blast
  have t_plain: "ascii ''t'' \<noteq> protoKey"
    using Date_t_plain(2) by simp
  have look: "mkRow [Date, ascii ''t''] [ascii ''D2'', ascii '' A ''] (ascii ''t'') =
      Some (ascii ''A'')"
    using rows [of "[ascii ''D2'', ascii '' A '']", THEN conjunct1, rule_format, of "Suc 0"] t_plain
    by (simp add: sample_header_trims)
  have p1: "rowProps [Date, ascii ''t''] [ascii ''D2'', ascii '' A ''] =
      [(Date, ascii ''D2''), (ascii ''t'', ascii ''A'')]"
    using rows [of "[ascii ''D2'', ascii '' A '']", THEN conjunct2] Date_t_plain
    by (simp add: sample_header_trims)
  have p2: "rowProps [Date, ascii ''t''] [ascii ''D2'', []] = [(Date, ascii ''D2''), (ascii ''t'', [])]"
    using rows [of "[ascii ''D2'', []]", THEN conjunct2] Date_t_plain
    by (simp add: sample_header_trims trim_Nil)
  from hd pd pn look p1 p2 show ?thesis
    by (simp add: datedCsv_lines records_def)
qed

section \<open>The document renderer\<close>

lemma truthyTrim_nonBlank: "truthyTrim v = nonBlank v"
  by (cases v) (auto simp: trim_Nil)

lemma newsLoop_end: "\<not> i \<le> 5 \<Longrightarrow> newsLoop item i fullMd hasNews = (fullMd, hasNews)"
  by (simp add: newsLoop.simps)

lemma newsLoop_step:
  "i \<le> 5 \<Longrightarrow>
   newsLoop item i fullMd hasNews =
     newsLoop item (i + 1) (fullMd @ (if groupShown item i then linkLine item i else []))
       (hasNews \<or> groupShown item i)"
  by (subst newsLoop.simps)
     (auto simp: Let_def truthyTrim_nonBlank groupShown_def linkLine_def)

lemma newsLoop_from:
  "i \<le> 6 \<Longrightarrow>
   newsLoop item i fullMd hasNews =
     (fullMd @ concat (map (\<lambda>i. if groupShown item i then linkLine item i else []) [i..<6]),
      hasNews \<or> (\<exists>k \<in> {i..<6}. groupShown item k))"
proof (induction "6 - i" arbitrary: i fullMd hasNews)
  case 0
  then have "i = 6" by simp
  then show ?case by (simp add: newsLoop_end)
next
  case (Suc n)
  then have i: "i \<le> 5" and n: "n = 6 - (i + 1)" and le: "i + 1 \<le> 6" by simp_all
  have upt: "[i..<6] = i # [i + 1..<6]"
    using i by (simp add: upt_conv_Cons)
  have set: "{i..<6} = insert i {i + 1..<6}"
    using i by auto
  show ?case
    unfolding newsLoop_step [OF i] Suc.hyps(1) [OF n le] upt set by auto
qed

lemma upt_1_6: "[1..<6] = [1, 2, 3, 4, 5 :: nat]"
  by code_simp

lemma newsLoop_all:
  "newsLoop item 1 fullMd False =
     (fullMd @ concat (map (\<lambda>i. if groupShown item i then linkLine item i else []) [1, 2, 3, 4, 5]),
      \<exists>i \<in> {1..5}. groupShown item i)"
proof -
  have set: "{1..<6::nat} = {1..5}" by auto
  have "(1::nat) \<le> 6" by simp
  from newsLoop_from [OF this, of item fullMd False] show ?thesis
    by (simp only: upt_1_6 set simp_thms)
qed

lemma newsLoopB_end: "\<not> i \<le> 5 \<Longrightarrow> newsLoopB item i fullMd hasNews = (fullMd, hasNews)"
  by (simp add: newsLoopB.simps)

lemma newsLoopB_step:
  "i \<le> 5 \<Longrightarrow>
   newsLoopB item i fullMd hasNews =
     newsLoopB item (i + 1) (fullMd @ (if groupShown item i then linkLine item i else []))
       (hasNews \<or> groupShown item i)"
  by (subst newsLoopB.simps)
     (auto simp: Let_def truthyTrim_nonBlank groupShown_def linkLine_def)

lemma newsLoopB_from:
  "i \<le> 6 \<Longrightarrow>
   newsLoopB item i fullMd hasNews =
     (fullMd @ concat (map (\<lambda>i. if groupShown item i then linkLine item i else []) [i..<6]),
      hasNews \<or> (\<exists>k \<in> {i..<6}. groupShown item k))"
proof (induction "6 - i" arbitrary: i fullMd hasNews)
  case 0
  then have "i = 6" by simp
  then show ?case by (simp add: newsLoopB_end)
next
  case (Suc n)
  then have i: "i \<le> 5" and n: "n = 6 - (i + 1)" and le: "i + 1 \<le> 6" by simp_all
  have upt: "[i..<6] = i # [i + 1..<6]"
    using i by (simp add: upt_conv_Cons)
  have set: "{i..<6} = insert i {i + 1..<6}"
    using i by auto
  show ?case
    unfolding newsLoopB_step [OF i] Suc.hyps(1) [OF n le] upt set by auto
qed

lemma newsLoopB_all:
  "newsLoopB item 1 fullMd False =
     (fullMd @ concat (map (\<lambda>i. if groupShown item i then linkLine item i else []) [1, 2, 3, 4, 5]),
      \<exists>i \<in> {1..5}. groupShown item i)"
proof -
  have set: "{1..<6::nat} = {1..5}" by auto
  have "(1::nat) \<le> 6" by simp
  from newsLoopB_from [OF this, of item fullMd False] show ?thesis
    by (simp only: upt_1_6 set simp_thms)
qed

lemma renderItem_md:
  "fst (renderItem item (fullMd, logged)) =
     fullMd @ mdHeading @ headingLabel item @ [nl, nl] @ newsBlock item @ [nl]"
  unfolding renderItem_def newsLoop_all
  by (simp add: Let_def truthyTrim_nonBlank headingLabel_def newsBlock_def)


lemma renderItemB_md:
  "fst (renderItemB item (fullMd, logged)) =
     fullMd @ mdHeading @ headingLabel (props item) @
     (case symbol_info item of None \<Rightarrow> [] | Some info \<Rightarrow> symbolInfoMd info) @
     [nl, nl] @ newsBlock (props item) @ [nl]"
  unfolding renderItemB_def newsLoopB_all
  by (simp add: Let_def truthyTrim_nonBlank headingLabel_def newsBlock_def split: option.splits)


subsection \<open>The sample items\<close>

lemma showNat_digit: "n < 10 \<Longrightarrow> showNat n = [digit n]"
  by (simp add: showNat.simps)

lemmas key_defs = newsKey_def tickerKey_def thesisKey_def Date_def ascii_def showNat_digit digit_def

lemma itemLinked_head:
  "itemLinked tickerKey = Some (ascii ''AAPL'')"
  "itemLinked thesisKey = Some (ascii ''thesis123'')"
  by (simp_all add: itemLinked_def key_defs)

lemma itemLinked_news:
  "itemLinked (newsKey 1 ''_title'') = Some (ascii '' Apple event '')"
  "itemLinked (newsKey 1 ''_date'') = Some (ascii ''2024-01-04'')"
  "itemLinked (newsKey 1 ''_link'') = Some (ascii ''http://x'')"
  "itemLinked (newsKey 2 ''_title'') = Some (ascii ''title without link'')"
  "itemLinked (newsKey 2 ''_link'') = None"
  "itemLinked (newsKey 3 ''_title'') = None"
  "itemLinked (newsKey 4 ''_title'') = None"
  "itemLinked (newsKey 5 ''_title'') = None"
  by (simp_all add: itemLinked_def key_defs)

lemma itemPlain_head:
  "itemPlain tickerKey = Some (ascii ''MSFT'')"
  "itemPlain thesisKey = Some (ascii ''  '')"
  by (simp_all add: itemPlain_def key_defs)

lemma itemPlain_news: "itemPlain (newsKey i ''_title'') = None"
  by (simp add: itemPlain_def key_defs)

lemma sample_trims:
  "trim (ascii ''thesis123'') = ascii ''thesis123''"
  "trim (ascii ''  '') = []"
  "trim (ascii '' Apple event '') = ascii ''Apple event''"
  "trim (ascii ''2024-01-04'') = ascii ''2024-01-04''"
  "trim (ascii ''http://x'') = ascii ''http://x''"
  "trim (ascii ''title without link'') = ascii ''title without link''"
  by (simp_all add: trim_def ascii_def isWhiteSpace_def)

lemma ascii_eq_Nil: "ascii s = [] \<longleftrightarrow> s = []"
  by (simp add: ascii_def)

lemma itemLinked_shown:
  "groupShown itemLinked 1" "\<not> groupShown itemLinked 2" "\<not> groupShown itemLinked 3"
  "\<not> groupShown itemLinked 4" "\<not> groupShown itemLinked 5"
  by (simp_all add: groupShown_def itemLinked_news sample_trims ascii_eq_Nil del: One_nat_def)

lemma itemPlain_shown: "\<not> groupShown itemPlain i"
  by (simp add: groupShown_def itemPlain_news)

lemma itemLinked_line:
  "linkLine itemLinked 1 =
     mdBulletOpen @ ascii ''Apple event'' @ mdBulletMid @ ascii ''http://x'' @ mdBulletClose @
     mdDot @ ascii ''2024-01-04'' @ [nl]"
  by (simp add: linkLine_def itemLinked_news sample_trims ascii_eq_Nil del: One_nat_def)

subsection \<open>Headings, news groups, and the two variants\<close>

text \<open>
  C7. In both variants the section of a record starts with the heading mark and the label:
  when the record's thesis is present and non-blank after trimming, the cross-reference
  token made of the thesis identifier and the ticker as display text; otherwise the plain
  ticker. The direct-file variant ends the heading there; the remote-service variant puts
  its optional \<open>symbol_info\<close> annotation between the label and the end of the heading.
\<close>

theorem heading_label:
  "(nonBlank (item thesisKey) \<longrightarrow>
      prefix (fullMd @ mdHeading @ mdRefOpen @ toStr (item thesisKey) @ mdRefMid @
                toStr (item tickerKey) @ mdRefClose @ [nl, nl])
        (fst (renderItem item (fullMd, logged)))) \<and>
   (\<not> nonBlank (item thesisKey) \<longrightarrow>
      prefix (fullMd @ mdHeading @ toStr (item tickerKey) @ [nl, nl])
        (fst (renderItem item (fullMd, logged)))) \<and>
   (nonBlank (props itemB thesisKey) \<longrightarrow>
      prefix (fullMd @ mdHeading @ mdRefOpen @ toStr (props itemB thesisKey) @ mdRefMid @
                toStr (props itemB tickerKey) @ mdRefClose @
                (case symbol_info itemB of None \<Rightarrow> [] | Some info \<Rightarrow> symbolInfoMd info) @ [nl, nl])
        (fst (renderItemB itemB (fullMd, logged)))) \<and>
   (\<not> nonBlank (props itemB thesisKey) \<longrightarrow>
      prefix (fullMd @ mdHeading @ toStr (props itemB tickerKey) @
                (case symbol_info itemB of None \<Rightarrow> [] | Some info \<Rightarrow> symbolInfoMd info) @ [nl, nl])
        (fst (renderItemB itemB (fullMd, logged))))"
  by (simp add: renderItem_md renderItemB_md headingLabel_def)

theorem heading_label_witness:
  "nonBlank (itemLinked thesisKey) \<and>
   prefix (mdHeading @ mdRefOpen @ ascii ''thesis123'' @ mdRefMid @ ascii ''AAPL'' @ mdRefClose @
             [nl, nl])
     (fst (renderItem itemLinked ([], []))) \<and>
   \<not> nonBlank (itemPlain thesisKey) \<and>
   prefix (mdHeading @ ascii ''MSFT'' @ [nl, nl]) (fst (renderItem itemPlain ([], [])))"
proof -
  have a: "nonBlank (itemLinked thesisKey)"
    by (simp add: itemLinked_head sample_trims ascii_eq_Nil)
  have b: "\<not> nonBlank (itemPlain thesisKey)"
    by (simp add: itemPlain_head sample_trims)
  from heading_label [of itemLinked "[]" "[]"] heading_label [of itemPlain "[]" "[]"] a b
  show ?thesis by (simp add: itemLinked_head itemPlain_head)
qed

text \<open>
  C8. In both variants the section of a record is its heading followed by one list line
  for each of the groups 1 to 5, in order, whose title and link are both non-blank after
  trimming (\<open>linkLine\<close>: trimmed title as link text, trimmed link as target, the trimmed
  date after a middle dot when it is non-blank), nothing for any other group, and, when no
  group is shown, the one placeholder line \<open>mdNoNews\<close> instead; a line feed ends the section.
\<close>

theorem news_group_lines:
  "fst (renderItem item (fullMd, logged)) =
     fullMd @ mdHeading @ headingLabel item @ [nl, nl] @
     (if \<exists>i \<in> {1..5}. groupShown item i then
        concat (map (\<lambda>i. if groupShown item i then linkLine item i else []) [1, 2, 3, 4, 5])
      else mdNoNews) @ [nl] \<and>
   fst (renderItemB itemB (fullMd, logged)) =
     fullMd @ mdHeading @ headingLabel (props itemB) @
     (case symbol_info itemB of None \<Rightarrow> [] | Some info \<Rightarrow> symbolInfoMd info) @ [nl, nl] @
     (if \<exists>i \<in> {1..5}. groupShown (props itemB) i then
        concat (map (\<lambda>i. if groupShown (props itemB) i then linkLine (props itemB) i else [])
                  [1, 2, 3, 4, 5])
      else mdNoNews) @ [nl]"
  by (simp only: renderItem_md renderItemB_md newsBlock_def)

theorem news_group_lines_witness:
  "(\<exists>i \<in> {1..5}. groupShown itemLinked i) \<and>
   fst (renderItem itemLinked ([], [])) =
     mdHeading @ mdRefOpen @ ascii ''thesis123'' @ mdRefMid @ ascii ''AAPL'' @ mdRefClose @
     [nl, nl] @
     mdBulletOpen @ ascii ''Apple event'' @ mdBulletMid @ ascii ''http://x'' @ mdBulletClose @
     mdDot @ ascii ''2024-01-04'' @ [nl] @ [nl] \<and>
   \<not> (\<exists>i \<in> {1..5}. groupShown itemPlain i) \<and>
   fst (renderItem itemPlain ([], [])) = mdHeading @ ascii ''MSFT'' @ [nl, nl] @ mdNoNews @ [nl]"
proof -
  have a: "\<exists>i \<in> {1..5}. groupShown itemLinked i"
    using itemLinked_shown(1) by auto
  have b: "\<not> (\<exists>i \<in> {1..5}. groupShown itemPlain i)"
    by (simp add: itemPlain_shown)
  have c: "headingLabel itemLinked =
      mdRefOpen @ ascii ''thesis123'' @ mdRefMid @ ascii ''AAPL'' @ mdRefClose"
    by (simp add: headingLabel_def itemLinked_head sample_trims ascii_eq_Nil)
  have d: "headingLabel itemPlain = ascii ''MSFT''"
    by (simp add: headingLabel_def itemPlain_head sample_trims)
  from news_group_lines [of itemLinked "[]" "[]"] news_group_lines [of itemPlain "[]" "[]"] a b
  show ?thesis
    by (simp add: c d itemLinked_shown itemPlain_shown itemLinked_line del: One_nat_def)
qed






section \<open>The task orchestrator\<close>

lemma sample_targets:
  "trim (ascii ''doc1'') = ascii ''doc1''" "trim (ascii ''  '') = []" "trim [] = []"
  by (simp_all add: trim_def ascii_def isWhiteSpace_def)

lemma showNat_500: "showNat 500 = ascii ''500''"
  by (simp add: showNat.simps ascii_def digit_def)

text \<open>
  Against C2 as stated: with a blank target identifier the update action validates nothing,
  logs no validation line and issues its request to the bridge.
\<close>

theorem runPortfolioUpdate_blank_counterexample:
  "trim (targetDocId (idleWorld (ascii ''  ''))) = [] \<and>
   requests (runPortfolioUpdate envDown (idleWorld (ascii ''  ''))) = [PostBridge taskUpdate] \<and>
   logOutput (runPortfolioUpdate envDown (idleWorld (ascii ''  ''))) =
     [(msgUpdateStart, LInfo), (msgRunScript, LInfo), (msgFailed @ errHttp @ ascii ''500'', LError)]"
  by (simp add: idleWorld_def envDown_def runPortfolioUpdate_def runPortfolioUpdate_try_def
        log_def issue_def consoleError_def sample_targets showNat_500 Let_def)

text \<open>
  C2 (amended). Each of the three actions that write to the target document (import news,
  import chart, run-all) begins by validating the target identifier: when it is blank
  after trimming, the action appends exactly one line, \<open>msgMissingTarget\<close> at the error
  level, to the log, issues no request and changes nothing else. (The update action reads
  no target identifier.)
\<close>

theorem blank_target_aborts:
  assumes "trim (targetDocId w) = []"
  shows "importNewsToSiyuan env w = w\<lparr>logOutput := logOutput w @ [(msgMissingTarget, LError)]\<rparr> \<and>
         importChartToSiyuan env w = w\<lparr>logOutput := logOutput w @ [(msgMissingTarget, LError)]\<rparr> \<and>
         importFullPortfolio env w = w\<lparr>logOutput := logOutput w @ [(msgMissingTarget, LError)]\<rparr> \<and>
         requests (importNewsToSiyuan env w) = requests w \<and>
         requests (importChartToSiyuan env w) = requests w \<and>
         requests (importFullPortfolio env w) = requests w"
  using assms
  by (simp add: importNewsToSiyuan_def importChartToSiyuan_def importFullPortfolio_def log_def)

theorem blank_target_aborts_witness:
  "trim (targetDocId (idleWorld (ascii ''  ''))) = [] \<and>
   logOutput (importNewsToSiyuan envDown (idleWorld (ascii ''  ''))) = [(msgMissingTarget, LError)] \<and>
   requests (importNewsToSiyuan envDown (idleWorld (ascii ''  ''))) = [] \<and>
   logOutput (importChartToSiyuan envDown (idleWorld (ascii ''  ''))) = [(msgMissingTarget, LError)] \<and>
   requests (importChartToSiyuan envDown (idleWorld (ascii ''  ''))) = [] \<and>
   logOutput (importFullPortfolio envDown (idleWorld (ascii ''  ''))) = [(msgMissingTarget, LError)] \<and>
   requests (importFullPortfolio envDown (idleWorld (ascii ''  ''))) = []"
proof -
  have blank: "trim (targetDocId (idleWorld (ascii ''  ''))) = []"
    by (simp add: idleWorld_def sample_targets)
  from blank_target_aborts [OF blank, of envDown] blank show ?thesis
    by (simp add: idleWorld_def)
qed

text \<open>What the primitive operations and the single actions do to the request trace.\<close>

lemma log_fields:
  "requests (log m t w) = requests w" "targetDocId (log m t w) = targetDocId w"
  "logOutput (log m t w) = logOutput w @ [(m, t)]"
  by (simp_all add: log_def)

lemma consoleError_fields:
  "requests (consoleError e w) = requests w" "targetDocId (consoleError e w) = targetDocId w"
  "logOutput (consoleError e w) = logOutput w"
  by (simp_all add: consoleError_def)

lemma issue_fields:
  "requests (issue r w) = requests w @ [r]" "targetDocId (issue r w) = targetDocId w"
  "logOutput (issue r w) = logOutput w"
  by (simp_all add: issue_def)

lemma runPortfolioUpdate_try_fields:
  "requests (snd (runPortfolioUpdate_try env w)) = requests w @ [PostBridge taskUpdate]"
  "targetDocId (snd (runPortfolioUpdate_try env w)) = targetDocId w"
  by (simp_all add: runPortfolioUpdate_try_def Let_def log_fields issue_fields
        split: reply.splits sum.splits option.splits)

lemma runPortfolioUpdate_fields:
  "requests (runPortfolioUpdate env w) = requests w @ [PostBridge taskUpdate]"
  "targetDocId (runPortfolioUpdate env w) = targetDocId w"
  using runPortfolioUpdate_try_fields [of env "log msgUpdateStart LInfo (w\<lparr>workBtn_disabled := True, logOutput := []\<rparr>)"]
  by (auto simp: runPortfolioUpdate_def Let_def log_fields consoleError_fields
        split: prod.splits sum.splits)

lemma importNewsToSiyuan_try_fields:
  "\<exists>rest. requests (snd (importNewsToSiyuan_try env targetId w)) =
      requests w @ GetFile (SIYUAN_STORAGE_PATH @ newsFileName) # rest"
  "targetDocId (snd (importNewsToSiyuan_try env targetId w)) = targetDocId w"
  by (simp_all add: importNewsToSiyuan_try_def Let_def log_fields issue_fields
        split: reply.splits sum.splits option.splits list.splits prod.splits)


lemma importNewsToSiyuan_fields:
  assumes "trim (targetDocId w) \<noteq> []"
  shows "\<exists>rest. requests (importNewsToSiyuan env w) =
           requests w @ GetFile (SIYUAN_STORAGE_PATH @ newsFileName) # rest"
    and "targetDocId (importNewsToSiyuan env w) = targetDocId w"
  using assms
    importNewsToSiyuan_try_fields [of env "trim (targetDocId w)"
      "log msgNewsStart LInfo (w\<lparr>importNewsBtn_disabled := True\<rparr>)"]
  by (auto simp: importNewsToSiyuan_def Let_def log_fields consoleError_fields
        split: prod.splits sum.splits)

lemma importChartToSiyuan_try_fields:
  "\<exists>rest. requests (snd (importChartToSiyuan_try env targetId w)) =
      requests w @ HeadFile (SIYUAN_STORAGE_PATH @ chartFileName) # rest"
  by (simp add: importChartToSiyuan_try_def Let_def log_fields issue_fields
        split: reply.splits sum.splits option.splits)

lemma importChartToSiyuan_fields:
  assumes "trim (targetDocId w) \<noteq> []"
  shows "\<exists>rest. requests (importChartToSiyuan env w) =
           requests w @ HeadFile (SIYUAN_STORAGE_PATH @ chartFileName) # rest"
  using assms
    importChartToSiyuan_try_fields [of env "trim (targetDocId w)"
      "log msgChartStart LInfo (w\<lparr>importChartBtn_disabled := True\<rparr>)"]
  by (auto simp: importChartToSiyuan_def Let_def log_fields consoleError_fields
        split: prod.splits sum.splits)

text \<open>
  Whatever the collaborators answer, the full pipeline with a non-blank target identifier
  issues the bridge request, then the read of the news file, then the check of the chart
  file: the outcome of the update step decides nothing.
\<close>

lemma importFullPortfolio_steps:
  assumes "trim (targetDocId w) \<noteq> []"
  shows "\<exists>rest rest'. requests (importFullPortfolio env w) =
           requests w @ PostBridge taskUpdate #
             GetFile (SIYUAN_STORAGE_PATH @ newsFileName) # rest @
             HeadFile (SIYUAN_STORAGE_PATH @ chartFileName) # rest'"
proof -
  define w1 where "w1 = log msgStep1 LInfo (log msgFullStart LInfo
      (w\<lparr>workBtn_disabled := True, importNewsBtn_disabled := True,
         importChartBtn_disabled := True, logOutput := []\<rparr>))"
  define w2 where "w2 = log msgStep2 LInfo (runPortfolioUpdate env w1)"
  define w3 where "w3 = log msgStep3 LInfo (importNewsToSiyuan env w2)"
  have t1: "targetDocId w1 = targetDocId w" and r1: "requests w1 = requests w"
    by (simp_all add: w1_def log_fields)
  have t2: "targetDocId w2 = targetDocId w"
    and r2: "requests w2 = requests w @ [PostBridge taskUpdate]"
    by (simp_all add: w2_def log_fields runPortfolioUpdate_fields t1 r1)
  from assms t2 have nb2: "trim (targetDocId w2) \<noteq> []" by simp
  from importNewsToSiyuan_fields [OF nb2, of env] obtain rest where
    r3: "requests w3 = requests w2 @ GetFile (SIYUAN_STORAGE_PATH @ newsFileName) # rest"
    and t3: "targetDocId w3 = targetDocId w2"
    by (auto simp: w3_def log_fields)
  from assms t2 t3 have nb3: "trim (targetDocId w3) \<noteq> []" by simp
  from importChartToSiyuan_fields [OF nb3, of env] obtain rest' where
    r4: "requests (importChartToSiyuan env w3) =
           requests w3 @ HeadFile (SIYUAN_STORAGE_PATH @ chartFileName) # rest'"
    by auto
  have "requests (importFullPortfolio env w) = requests (importChartToSiyuan env w3)"
    using assms by (simp add: importFullPortfolio_def Let_def log_fields w1_def w2_def w3_def)
  with r4 r3 r2 show ?thesis
    by (intro exI [of _ rest] exI [of _ rest']) simp
qed

text \<open>
  C1. The claim says that a failing update step halts the full pipeline. Here the update
  step fails, once by the transport status 500 and once by a status flag other than
  \<open>success\<close>; in both runs the news step and the chart step are started all the same
  (their requests are issued), and the last log line reports the success of the pipeline.
\<close>

theorem importFullPortfolio_after_failed_update:
  "fst (runPortfolioUpdate_try envDown (idleWorld (ascii ''doc1''))) =
     Inl (errHttp @ ascii ''500'') \<and>
   requests (importFullPortfolio envDown (idleWorld (ascii ''doc1''))) =
     [PostBridge taskUpdate, GetFile (SIYUAN_STORAGE_PATH @ newsFileName),
      HeadFile (SIYUAN_STORAGE_PATH @ chartFileName)] \<and>
   logOutput (importFullPortfolio envDown (idleWorld (ascii ''doc1''))) =
     [(msgUpdateStart, LInfo), (msgRunScript, LInfo),
      (msgFailed @ errHttp @ ascii ''500'', LError),
      (msgStep2, LInfo), (msgNewsStart, LInfo), (msgReadNews, LInfo),
      (msgFailed @ errNewsFile @ SIYUAN_STORAGE_PATH @ newsFileName @ errRunUpdateFirst, LError),
      (msgStep3, LInfo), (msgChartStart, LInfo), (msgCheckChart, LInfo),
      (msgFailed @ errChartFile @ SIYUAN_STORAGE_PATH @ chartFileName @ errRunUpdateFirst, LError),
      (msgFullOk, LSuccess)] \<and>
   fst (runPortfolioUpdate_try envScriptError (idleWorld (ascii ''doc1''))) =
     Inl (errPython @ ascii ''boom'') \<and>
   requests (importFullPortfolio envScriptError (idleWorld (ascii ''doc1''))) =
     [PostBridge taskUpdate, GetFile (SIYUAN_STORAGE_PATH @ newsFileName),
      HeadFile (SIYUAN_STORAGE_PATH @ chartFileName)]"
proof -
  have error_flag: "Some (ascii ''error'') \<noteq> Some success"
    by (simp add: success_def ascii_def)
  show ?thesis
    using error_flag
    by (simp add: idleWorld_def envDown_def envScriptError_def importFullPortfolio_def
        runPortfolioUpdate_def runPortfolioUpdate_try_def importNewsToSiyuan_def
        importNewsToSiyuan_try_def importChartToSiyuan_def importChartToSiyuan_try_def
        log_def issue_def consoleError_def sample_targets ascii_eq_Nil showNat_500
        Let_def)
qed

end
